theory Spec2Isabelle
  imports Complex_Main
begin

section \<open>Python values, exceptions and string operations\<close>

text \<open>
  The sources are Python 2 modules. Integers are unbounded (\<open>int\<close>). Floats are modelled
  as exact reals: the rate formulas are read as rational arithmetic, and a float division whose
  divisor is zero raises \<open>ZeroDivisionError\<close>, as in Python. Every exception the modelled
  code can raise is a value of \<open>error\<close>; a call returns \<open>Inl e\<close> when the exception
  \<open>e\<close> escapes it, together with the global state and the world as they are at that moment.
\<close>

datatype errno = ENOENT | EACCES

datatype error =
    ZeroDivisionError
  | ValueError
  | IndexError
  | KeyError
  | IOError errno
  | OSError
  | SystemExit int
  | ProcessNotFound int
  | PermissionDenied int

text \<open>\<open>str.strip()\<close> removes the ASCII whitespace bytes from both ends.\<close>

definition py_isspace :: "char \<Rightarrow> bool" where
  "py_isspace c = (c \<in> set [CHR '' '', CHR 0x09, CHR 0x0A, CHR 0x0B, CHR 0x0C, CHR 0x0D])"

definition py_strip :: "string \<Rightarrow> string" where
  "py_strip s = rev (dropWhile py_isspace (rev (dropWhile py_isspace s)))"

text \<open>\<open>s.strip(chars)\<close> removes leading and trailing bytes that occur in \<open>chars\<close>.\<close>

definition py_strip_chars :: "string \<Rightarrow> string \<Rightarrow> string" where
  "py_strip_chars chars s =
     rev (dropWhile (\<lambda>c. c \<in> set chars) (rev (dropWhile (\<lambda>c. c \<in> set chars) s)))"

text \<open>
  \<open>s.split(sep, maxsplit)\<close> for a one-byte separator: at most \<open>maxsplit\<close> cuts, from
  the left; the result is never empty. \<open>s.split(sep)\<close> is the same with no bound, and a
  string has at most \<open>length s\<close> separators.
\<close>

fun py_split_max :: "char \<Rightarrow> nat \<Rightarrow> string \<Rightarrow> string list" where
  "py_split_max sep 0 s = [s]"
| "py_split_max sep (Suc n) [] = [[]]"
| "py_split_max sep (Suc n) (c # cs) =
     (if c = sep then [] # py_split_max sep n cs
      else (case py_split_max sep (Suc n) cs of
              [] \<Rightarrow> [[c]]
            | p # ps \<Rightarrow> (c # p) # ps))"

definition py_split :: "char \<Rightarrow> string \<Rightarrow> string list" where
  "py_split sep s = py_split_max sep (length s) s"

text \<open>
  \<open>s.count(sub)\<close> for a non-empty \<open>sub\<close>: the number of non-overlapping occurrences,
  scanning from the left.
\<close>

fun py_count :: "string \<Rightarrow> string \<Rightarrow> nat" where
  "py_count sub [] = 0"
| "py_count sub (c # cs) =
     (if sub \<noteq> [] \<and> take (length sub) (c # cs) = sub
      then Suc (py_count sub (drop (length sub - 1) cs))
      else py_count sub cs)"

text \<open>\<open>s.replace(old, new)\<close> for a non-empty \<open>old\<close>: every non-overlapping occurrence.\<close>

fun py_replace :: "string \<Rightarrow> string \<Rightarrow> string \<Rightarrow> string" where
  "py_replace old new [] = []"
| "py_replace old new (c # cs) =
     (if old \<noteq> [] \<and> take (length old) (c # cs) = old
      then new @ py_replace old new (drop (length old - 1) cs)
      else c # py_replace old new cs)"

text \<open>
  \<open>int(s)\<close> on a byte string: surrounding whitespace is ignored, one optional sign, then at
  least one decimal digit and nothing else; anything else raises \<open>ValueError\<close>.
\<close>

definition py_isdigit :: "char \<Rightarrow> bool" where
  "py_isdigit c = (c \<in> set ''0123456789'')"

definition digit_val :: "char \<Rightarrow> int" where
  "digit_val c = int (of_char c) - 48"

definition digits_val :: "string \<Rightarrow> int" where
  "digits_val ds = foldl (\<lambda>acc c. acc * 10 + digit_val c) 0 ds"

definition py_int :: "string \<Rightarrow> error + int" where
  "py_int s =
     (let t = py_strip s;
          (neg, ds) = (case t of
                         [] \<Rightarrow> (False, [])
                       | c # cs \<Rightarrow> if c = CHR ''-'' then (True, cs)
                                   else if c = CHR ''+'' then (False, cs)
                                   else (False, t))
      in if ds \<noteq> [] \<and> list_all py_isdigit ds
         then Inr (if neg then - digits_val ds else digits_val ds)
         else Inl ValueError)"

text \<open>\<open>map(int, xs)\<close>: the first element that does not parse raises.\<close>

fun map_int :: "string list \<Rightarrow> error + int list" where
  "map_int [] = Inr []"
| "map_int (x # xs) =
     (case py_int x of
        Inl e \<Rightarrow> Inl e
      | Inr n \<Rightarrow> (case map_int xs of Inl e \<Rightarrow> Inl e | Inr ns \<Rightarrow> Inr (n # ns)))"

text \<open>\<open>xs[i]\<close> for a literal index \<open>i \<ge> 0\<close>.\<close>

definition py_index :: "'a list \<Rightarrow> nat \<Rightarrow> error + 'a" where
  "py_index xs i = (if i < length xs then Inr (xs ! i) else Inl IndexError)"

text \<open>
  \<open>round(x, 2)\<close> in Python 2 rounds to two decimals, halves away from zero. On exact reals:
\<close>

definition round2 :: "real \<Rightarrow> real" where
  "round2 x = (if x < 0 then - real_of_int \<lfloor>- x * 100 + 1 / 2\<rfloor> / 100
               else real_of_int \<lfloor>x * 100 + 1 / 2\<rfloor> / 100)"

section \<open>The world outside the program\<close>

text \<open>
  The pseudo-files under \<open>/proc\<close> change between two reads. The world holds, for each path,
  the outcomes of the successive attempts to open it, in order: the lines of the file as
  \<open>readlines()\<close> returns them, or a failure. A path with no outcome left does not exist
  (any more). \<open>time()\<close> reads a clock whose successive values are \<open>clock w 0\<close>,
  \<open>clock w 1\<close>, ...; \<open>sleep\<close> is recorded in \<open>slept\<close>, and \<open>print\<close> in
  \<open>stdout\<close>. \<open>path_exists\<close> and \<open>path_isfile\<close> answer \<open>os.path.exists\<close> and
  \<open>os.path.isfile\<close>; \<open>cdll_loads\<close> says whether the loader finds \<open>libnethogs.so\<close>.
\<close>

datatype file_read = Lines "string list" | Missing | Denied

record world =
  files :: "string \<Rightarrow> file_read list"
  clock :: "nat \<Rightarrow> real"
  ticks :: nat
  slept :: "real list"
  stdout :: "string list"
  path_exists :: "string \<Rightarrow> bool"
  path_isfile :: "string \<Rightarrow> bool"
  cdll_loads :: bool

definition open_read :: "string \<Rightarrow> world \<Rightarrow> (error + string list) \<times> world" where
  "open_read path w =
     (case files w path of
        [] \<Rightarrow> (Inl (IOError ENOENT), w)
      | r # rs \<Rightarrow>
          ((case r of
              Lines ls \<Rightarrow> Inr ls
            | Missing \<Rightarrow> Inl (IOError ENOENT)
            | Denied \<Rightarrow> Inl (IOError EACCES)),
           w\<lparr>files := (files w)(path := rs)\<rparr>))"

text \<open>\<open>f.readline()\<close>: the next line, or the empty string at the end of the file.\<close>

definition readline :: "string list \<Rightarrow> string \<times> string list" where
  "readline ls = (case ls of [] \<Rightarrow> ([], []) | l # rest \<Rightarrow> (l, rest))"

definition time :: "world \<Rightarrow> real \<times> world" where
  "time w = (clock w (ticks w), w\<lparr>ticks := Suc (ticks w)\<rparr>)"

definition sleep :: "real \<Rightarrow> world \<Rightarrow> world" where
  "sleep interval w = w\<lparr>slept := slept w @ [interval]\<rparr>"

definition print :: "string \<Rightarrow> world \<Rightarrow> world" where
  "print s w = w\<lparr>stdout := stdout w @ [s]\<rparr>"

section \<open>corelib.py: system CPU, memory and network\<close>

text \<open>The module's globals; all of them start at 0.\<close>

record corelib_state =
  prev_cpu_work_time :: int
  prev_cpu_total_time :: int
  prev_net_receive_byte :: int
  prev_net_send_byte :: int
  prev_net_time :: real

definition corelib_init :: corelib_state where
  "corelib_init = \<lparr>prev_cpu_work_time = 0, prev_cpu_total_time = 0,
     prev_net_receive_byte = 0, prev_net_send_byte = 0, prev_net_time = 0\<rparr>"

definition calc_func_interval :: real where
  "calc_func_interval = 2"

text \<open>\<open>get_total_cpu_time()\<close> returns the pair (total time, work time).\<close>

definition get_total_cpu_time :: "world \<Rightarrow> (error + int \<times> int) \<times> world" where
  "get_total_cpu_time w =
     (case open_read ''/proc/stat'' w of
        (Inl e, w') \<Rightarrow> (Inl e, w')
      | (Inr cpu_stat, w') \<Rightarrow>
          (let total_cpu_time = py_strip (py_replace ''cpu'' [] (fst (readline cpu_stat)))
           in case map_int (py_split CHR '' '' total_cpu_time) of
                Inl e \<Rightarrow> (Inl e, w')
              | Inr [user, nice, system, idle, iowait, irq, softirq, steal, guest, guestnice] \<Rightarrow>
                  (Inr (user + nice + system + idle + iowait + irq + softirq + steal,
                        user + nice + system), w')
              | Inr _ \<Rightarrow> (Inl ValueError, w')))"

definition calc_cpu_percent ::
  "real \<Rightarrow> corelib_state \<Rightarrow> world \<Rightarrow> (error + real) \<times> corelib_state \<times> world" where
  "calc_cpu_percent interval s w =
     (case (if prev_cpu_work_time s = 0
            then (case get_total_cpu_time w of
                    (Inl e, w1) \<Rightarrow> (Inl e, s, w1)
                  | (Inr (total_time, work_time), w1) \<Rightarrow>
                      (Inr (), s\<lparr>prev_cpu_total_time := total_time, prev_cpu_work_time := work_time\<rparr>,
                       sleep interval w1))
            else (Inr (), s, w)) of
        (Inl e, s1, w1) \<Rightarrow> (Inl e, s1, w1)
      | (Inr _, s1, w1) \<Rightarrow>
          (case get_total_cpu_time w1 of
             (Inl e, w2) \<Rightarrow> (Inl e, s1, w2)
           | (Inr (current_total_time, current_work_time), w2) \<Rightarrow>
               if current_total_time - prev_cpu_total_time s1 = 0
               then (Inl ZeroDivisionError, s1, w2)
               else (Inr (real_of_int (current_work_time - prev_cpu_work_time s1) * 100
                          / real_of_int (current_total_time - prev_cpu_total_time s1)),
                     s1\<lparr>prev_cpu_total_time := current_total_time,
                        prev_cpu_work_time := current_work_time\<rparr>,
                     w2)))"




text \<open>
  \<open>get_net_dev_data()\<close>: the loop over the lines of \<open>/proc/net/dev\<close>, with the two
  running sums as accumulator.
\<close>

fun net_dev_loop :: "string list \<Rightarrow> int \<times> int \<Rightarrow> error + int \<times> int" where
  "net_dev_loop [] acc = Inr acc"
| "net_dev_loop (line # rest) (receive_bytes, send_bytes) =
     (if py_count '':'' line \<noteq> 0 \<and> \<not> py_count ''lo'' line \<noteq> 0
      then (case py_index (py_split_max CHR '':'' 2 line) 1 of
              Inl e \<Rightarrow> Inl e
            | Inr field \<Rightarrow>
           (case map_int (filter (\<lambda>x. x \<noteq> []) (py_split CHR '' '' (py_strip field))) of
              Inl e \<Rightarrow> Inl e
            | Inr dev_data \<Rightarrow>
           (case py_index dev_data 0 of
              Inl e \<Rightarrow> Inl e
            | Inr r \<Rightarrow>
           (case py_index dev_data 8 of
              Inl e \<Rightarrow> Inl e
            | Inr t \<Rightarrow> net_dev_loop rest (receive_bytes + r, send_bytes + t)))))
      else net_dev_loop rest (receive_bytes, send_bytes))"

definition get_net_dev_data :: "world \<Rightarrow> (error + int \<times> int) \<times> world" where
  "get_net_dev_data w =
     (case open_read ''/proc/net/dev'' w of
        (Inl e, w') \<Rightarrow> (Inl e, w')
      | (Inr net_dev, w') \<Rightarrow> (net_dev_loop net_dev (0, 0), w'))"

definition calc_net_speed ::
  "real \<Rightarrow> corelib_state \<Rightarrow> world \<Rightarrow> (error + real \<times> real) \<times> corelib_state \<times> world" where
  "calc_net_speed interval s w =
     (case (if prev_net_receive_byte s = 0
            then (case get_net_dev_data w of
                    (Inl e, w1) \<Rightarrow> (Inl e, s, w1)
                  | (Inr (receive_byte, send_byte), w1) \<Rightarrow>
                      (case time w1 of (t, w2) \<Rightarrow>
                         (Inr (), s\<lparr>prev_net_receive_byte := receive_byte,
                                    prev_net_send_byte := send_byte, prev_net_time := t\<rparr>,
                          sleep interval w2)))
            else (Inr (), s, w)) of
        (Inl e, s1, w1) \<Rightarrow> (Inl e, s1, w1)
      | (Inr _, s1, w1) \<Rightarrow>
          (case get_net_dev_data w1 of
             (Inl e, w2) \<Rightarrow> (Inl e, s1, w2)
           | (Inr (current_net_receive_byte, current_net_send_byte), w2) \<Rightarrow>
               (case time w2 of (current_net_time, w3) \<Rightarrow>
                  if current_net_time - prev_net_time s1 = 0
                  then (Inl ZeroDivisionError, s1, w3)
                  else (Inr (real_of_int (current_net_receive_byte - prev_net_receive_byte s1)
                               / 1024 / (current_net_time - prev_net_time s1),
                             real_of_int (current_net_send_byte - prev_net_send_byte s1)
                               / 1024 / (current_net_time - prev_net_time s1)),
                        s1\<lparr>prev_net_receive_byte := current_net_receive_byte,
                           prev_net_send_byte := current_net_send_byte,
                           prev_net_time := current_net_time\<rparr>,
                        w3))))"

section \<open>process_monitor.py: per-process CPU, disk I/O and network traffic\<close>

text \<open>
  \<open>str(pid)\<close> for an integer pid, used in the paths under \<open>/proc\<close> and as the key of
  the per-process dictionaries.
\<close>

fun str_nat :: "nat \<Rightarrow> string" where
  "str_nat n =
     (if n < 10 then [''0123456789'' ! n]
      else str_nat (n div 10) @ [''0123456789'' ! (n mod 10)])"

declare str_nat.simps [simp del]

definition py_str :: "int \<Rightarrow> string" where
  "py_str i = (if i < 0 then CHR ''-'' # str_nat (nat (- i)) else str_nat (nat i))"

text \<open>
  \<open>process_info_dict\<close> is the template of a watched process's entry; \<open>deepcopy\<close> of it is
  the value itself. \<open>prev_io\<close> holds the list \<open>[rchar, wchar]\<close>.
\<close>

record proc_info =
  pre_time :: real
  prev_cpu_time :: "int option"
  prev_io :: "(int \<times> int) option"

definition process_info_dict :: proc_info where
  "process_info_dict = \<lparr>pre_time = 0, prev_cpu_time = None, prev_io = None\<rparr>"

text \<open>The C structure \<open>NethogsMonitorRecord\<close> that libnethogs hands to the callback.\<close>

record NethogsMonitorRecord =
  nh_record_id :: int
  nh_name :: string
  nh_pid :: int
  nh_uid :: int
  nh_device_name :: string
  nh_sent_bytes :: int
  nh_recv_bytes :: int
  nh_sent_kbs :: real
  nh_recv_kbs :: real

text \<open>The dictionary \<open>process_net_data\<close> that the callback stores for a pid.\<close>

record process_net_data =
  d_pid :: int
  d_uid :: int
  d_action :: string
  d_pid_name :: string
  d_record_id :: int
  d_time :: string
  d_device :: string
  d_sent_bytes :: int
  d_recv_bytes :: int
  d_sent_kbs :: real
  d_recv_kbs :: real

text \<open>
  \<open>all_process_info_dict\<close>, the module's global registry. Its key \<open>prev_cpu_total_time\<close>
  is the field \<open>proc_prev_cpu_total_time\<close> here (the name is taken by corelib's global). The
  thread and library objects are modelled by whether they are set.
\<close>

record all_process_info =
  watch_pid :: "int set"
  process_info :: "string \<rightharpoonup> proc_info"
  proc_prev_cpu_total_time :: int
  libnethogs_thread :: bool
  libnethogs_thread_install :: bool
  libnethogs :: bool
  libnethogs_data :: "string \<rightharpoonup> process_net_data"

definition all_process_info_dict :: all_process_info where
  "all_process_info_dict =
     \<lparr>watch_pid = {}, process_info = Map.empty, proc_prev_cpu_total_time = 0,
      libnethogs_thread = False, libnethogs_thread_install = False, libnethogs = False,
      libnethogs_data = Map.empty\<rparr>"

text \<open>
  Modelled from the spec: the decorator \<open>wrap_process_exceptions\<close> of module
  \<open>prcess_exception\<close>, which is not among the sources. By the spec the raw counter source of
  a process fails with \<open>ProcessNotFound\<close> when the pid's counter file is gone and with
  \<open>PermissionDenied\<close> when the caller may not read it; every other exception passes through.
\<close>

definition wrap_process_exceptions :: "int \<Rightarrow> (error + 'a) \<times> world \<Rightarrow> (error + 'a) \<times> world" where
  "wrap_process_exceptions pid r =
     (case r of
        (Inl (IOError ENOENT), w) \<Rightarrow> (Inl (ProcessNotFound pid), w)
      | (Inl (IOError EACCES), w) \<Rightarrow> (Inl (PermissionDenied pid), w)
      | _ \<Rightarrow> r)"

text \<open>\<open>get_process_cpu_time(pid)\<close>: utime + stime + cutime + cstime of \<open>/proc/[pid]/stat\<close>.\<close>

definition get_process_cpu_time :: "int \<Rightarrow> world \<Rightarrow> (error + int) \<times> world" where
  "get_process_cpu_time pid w =
     wrap_process_exceptions pid
       (case open_read (''/proc/'' @ py_str pid @ ''/stat'') w of
          (Inl e, w') \<Rightarrow> (Inl e, w')
        | (Inr p_stat, w') \<Rightarrow>
            (let p_data = fst (readline p_stat)
             in case map_int (take 4 (drop 13 (py_split CHR '' '' p_data))) of
                  Inl e \<Rightarrow> (Inl e, w')
                | Inr ns \<Rightarrow> (Inr (sum_list ns), w')))"

text \<open>\<open>get_process_io(pid)\<close>: rchar and wchar, the first two lines of \<open>/proc/[pid]/io\<close>.\<close>

definition io_field :: "string \<Rightarrow> error + string" where
  "io_field line =
     (case py_index (py_split CHR '':'' line) 1 of
        Inl e \<Rightarrow> Inl e
      | Inr v \<Rightarrow> Inr (py_strip v))"

definition get_process_io :: "int \<Rightarrow> world \<Rightarrow> (error + int \<times> int) \<times> world" where
  "get_process_io pid w =
     wrap_process_exceptions pid
       (case open_read (''/proc/'' @ py_str pid @ ''/io'') w of
          (Inl e, w') \<Rightarrow> (Inl e, w')
        | (Inr p_io, w') \<Rightarrow>
            (let (l1, r1) = readline p_io; (l2, r2) = readline r1
             in case io_field l1 of
                  Inl e \<Rightarrow> (Inl e, w')
                | Inr rchar \<Rightarrow>
               (case io_field l2 of
                  Inl e \<Rightarrow> (Inl e, w')
                | Inr wchar \<Rightarrow>
               (case map_int [rchar, wchar] of
                  Inr [r, t] \<Rightarrow> (Inr (r, t), w')
                | Inr _ \<Rightarrow> (Inl ValueError, w')
                | Inl e \<Rightarrow> (Inl e, w')))))"

text \<open>
  The module imports \<open>get_total_cpu_time\<close> and \<open>get_default_net_device\<close> from
  \<open>sys_monitor\<close>, which is not among the sources. For the former stands the function of
  the same name and contract in corelib (the pair of total and work time, the spec's system CPU
  counters); the latter only names the device the capture thread listens on and is left out.

  Both sampling functions start with the same block: a pid that is not in the watch set is
  added to it and gets a fresh copy of \<open>process_info_dict\<close>.
\<close>

definition add_watched :: "int \<Rightarrow> all_process_info \<Rightarrow> all_process_info" where
  "add_watched pid s =
     (if pid \<notin> watch_pid s
      then s\<lparr>watch_pid := insert pid (watch_pid s),
             process_info := (process_info s)(py_str pid \<mapsto> process_info_dict)\<rparr>
      else s)"

definition calc_process_cpu_percent ::
  "int \<Rightarrow> real \<Rightarrow> all_process_info \<Rightarrow> world \<Rightarrow> (error + real) \<times> all_process_info \<times> world" where
  "calc_process_cpu_percent pid interval s0 w =
     (let s = add_watched pid s0
      in case process_info s (py_str pid) of
           None \<Rightarrow> (Inl KeyError, s, w)
         | Some info \<Rightarrow>
        (case (case prev_cpu_time info of
                 None \<Rightarrow>
                   (case get_total_cpu_time w of
                      (Inl e, w1) \<Rightarrow> (Inl e, s, w1)
                    | (Inr (total_time, work_time), w1) \<Rightarrow>
                        (let s1 = s\<lparr>proc_prev_cpu_total_time := total_time\<rparr>
                         in case get_process_cpu_time pid w1 of
                              (Inl e, w2) \<Rightarrow> (Inl e, s1, w2)
                            | (Inr c, w2) \<Rightarrow>
                                (Inr c,
                                 s1\<lparr>process_info := (process_info s1)
                                       (py_str pid \<mapsto> info\<lparr>prev_cpu_time := Some c\<rparr>)\<rparr>,
                                 sleep interval w2)))
               | Some c \<Rightarrow> (Inr c, s, w)) of
           (Inl e, s1, w1) \<Rightarrow> (Inl e, s1, w1)
         | (Inr prev, s1, w1) \<Rightarrow>
             (case get_total_cpu_time w1 of
                (Inl e, w2) \<Rightarrow> (Inl e, s1, w2)
              | (Inr (current_cpu_total_time, current_work_time), w2) \<Rightarrow>
             (case get_process_cpu_time pid w2 of
                (Inl e, w3) \<Rightarrow> (Inl e, s1, w3)
              | (Inr current_process_cpu_time, w3) \<Rightarrow>
                  if current_cpu_total_time - proc_prev_cpu_total_time s1 = 0
                  then (Inl ZeroDivisionError, s1, w3)
                  else (Inr (real_of_int (current_process_cpu_time - prev) * 100
                             / real_of_int (current_cpu_total_time - proc_prev_cpu_total_time s1)),
                        s1\<lparr>process_info := (process_info s1)
                              (py_str pid \<mapsto> info\<lparr>prev_cpu_time := Some current_process_cpu_time\<rparr>),
                           proc_prev_cpu_total_time := current_cpu_total_time\<rparr>,
                        w3)))))"

definition calc_process_cpu_io ::
  "int \<Rightarrow> real \<Rightarrow> all_process_info \<Rightarrow> world
     \<Rightarrow> (error + real \<times> real) \<times> all_process_info \<times> world" where
  "calc_process_cpu_io pid interval s0 w =
     (let s = add_watched pid s0
      in case process_info s (py_str pid) of
           None \<Rightarrow> (Inl KeyError, s, w)
         | Some info \<Rightarrow>
        (case (case prev_io info of
                 None \<Rightarrow>
                   (case get_process_io pid w of
                      (Inl e, w1) \<Rightarrow> (Inl e, s, w1)
                    | (Inr io, w1) \<Rightarrow>
                        (case time w1 of (t, w2) \<Rightarrow>
                           (Inr (io, t),
                            s\<lparr>process_info := (process_info s)
                                 (py_str pid \<mapsto> info\<lparr>prev_io := Some io, pre_time := t\<rparr>)\<rparr>,
                            sleep interval w2)))
               | Some io \<Rightarrow> (Inr (io, pre_time info), s, w)) of
           (Inl e, s1, w1) \<Rightarrow> (Inl e, s1, w1)
         | (Inr ((prev_rchar, prev_wchar), prev_t), s1, w1) \<Rightarrow>
             (case time w1 of (current_time, w2) \<Rightarrow>
             (case get_process_io pid w2 of
                (Inl e, w3) \<Rightarrow> (Inl e, s1, w3)
              | (Inr (current_rchar, current_wchar), w3) \<Rightarrow>
                  if current_time - prev_t = 0
                  then (Inl ZeroDivisionError, s1, w3)
                  else (Inr (round2 (real_of_int (current_rchar - prev_rchar)
                                       / 1000 ^ 2 / (current_time - prev_t)),
                             round2 (real_of_int (current_wchar - prev_wchar)
                                       / 1000 ^ 2 / (current_time - prev_t))),
                        s1\<lparr>process_info := (process_info s1)
                              (py_str pid \<mapsto> info\<lparr>prev_io := Some (current_rchar, current_wchar),
                                                   pre_time := current_time\<rparr>)\<rparr>,
                        w3)))))"

text \<open>The traffic feed of libnethogs.\<close>

definition is_libnethogs_install :: "string \<Rightarrow> world \<Rightarrow> bool" where
  "is_libnethogs_install libnethogs_path w =
     (path_exists w libnethogs_path \<and> path_isfile w libnethogs_path)"

definition Action_MAP :: "int \<Rightarrow> string" where
  "Action_MAP action =
     (if action = 1 then ''SET'' else if action = 2 then ''REMOVE'' else ''Unknown'')"

text \<open>
  \<open>network_activity_callback\<close> runs on the capture thread, once per traffic event. It is
  modelled as an atomic step between two calls of the sampling functions; \<open>now\<close> is the local
  time of the event, formatted \<open>%H:%M:%S\<close>.
\<close>

definition network_activity_callback ::
  "int \<Rightarrow> NethogsMonitorRecord \<Rightarrow> string \<Rightarrow> all_process_info \<Rightarrow> all_process_info" where
  "network_activity_callback action data now s =
     (if nh_pid data \<in> watch_pid s
      then s\<lparr>libnethogs_data := (libnethogs_data s)
               (py_str (nh_pid data) \<mapsto>
                  \<lparr>d_pid = nh_pid data, d_uid = nh_uid data, d_action = Action_MAP action,
                   d_pid_name = nh_name data, d_record_id = nh_record_id data, d_time = now,
                   d_device = nh_device_name data, d_sent_bytes = nh_sent_bytes data,
                   d_recv_bytes = nh_recv_bytes data,
                   d_sent_kbs = round2 (nh_sent_kbs data),
                   d_recv_kbs = round2 (nh_recv_kbs data)\<rparr>)\<rparr>
      else s)"

text \<open>
  \<open>init_nethogs_thread\<close> loads the shared library (\<open>ctypes.CDLL\<close> raises \<open>OSError\<close> when
  it cannot), then creates and starts the capture thread.
\<close>

definition init_nethogs_thread ::
  "all_process_info \<Rightarrow> world \<Rightarrow> (error + unit) \<times> all_process_info \<times> world" where
  "init_nethogs_thread s w =
     (if cdll_loads w
      then (Inr (), s\<lparr>libnethogs := True, libnethogs_thread := True\<rparr>, w)
      else (Inl OSError, s, w))"

text \<open>
  \<open>get_process_net_info(pid)\<close> returns the stored traffic dictionary of the pid; \<open>None\<close>
  stands for the default of the lookup, the empty dictionary. \<open>exit(-1)\<close> raises
  \<open>SystemExit\<close>, which ends the process unless a caller intercepts it.
\<close>

definition get_process_net_info ::
  "int \<Rightarrow> all_process_info \<Rightarrow> world
     \<Rightarrow> (error + process_net_data option) \<times> all_process_info \<times> world" where
  "get_process_net_info pid s w =
     (case (if \<not> libnethogs_thread_install s
            then (let s1 = s\<lparr>libnethogs_thread_install :=
                               is_libnethogs_install ''/usr/local/lib/libnethogs.so'' w\<rparr>
                  in if \<not> libnethogs_thread_install s1
                     then (Inl (SystemExit (- 1)), s1,
                           print ''Error : libnethogs is not installed!'' w)
                     else (Inr (), s1, w))
            else (Inr (), s, w)) of
        (Inl e, s1, w1) \<Rightarrow> (Inl e, s1, w1)
      | (Inr _, s1, w1) \<Rightarrow>
          (let s2 = s1\<lparr>watch_pid := insert pid (watch_pid s1)\<rparr>
           in case (if \<not> libnethogs_thread s2 then init_nethogs_thread s2 w1
                    else (Inr (), s2, w1)) of
                (Inl e, s3, w3) \<Rightarrow> (Inl e, s3, w3)
              | (Inr _, s3, w3) \<Rightarrow> (Inr (libnethogs_data s3 (py_str pid)), s3, w3)))"

section \<open>Concrete runs\<close>

text \<open>
  A world with the given outcomes per path, a clock that advances by \<open>step\<close> seconds per
  reading, and no libnethogs on the machine.
\<close>

definition proc_world :: "real \<Rightarrow> (string \<times> file_read list) list \<Rightarrow> world" where
  "proc_world step fs =
     \<lparr>files = (\<lambda>path. case map_of fs path of None \<Rightarrow> [] | Some rs \<Rightarrow> rs),
      clock = (\<lambda>n. step * real n), ticks = 0, slept = [], stdout = [],
      path_exists = (\<lambda>_. False), path_isfile = (\<lambda>_. False), cdll_loads = False\<rparr>"

text \<open>First lines of \<open>/proc/stat\<close>: total 100 and work 30; total 120 and work 42.\<close>

definition stat_100_30 :: string where
  "stat_100_30 = ''cpu  20 5 5 60 5 2 2 1 0 0'' @ [CHR 0x0A]"

definition stat_120_42 :: string where
  "stat_120_42 = ''cpu  28 6 8 66 6 3 2 1 0 0'' @ [CHR 0x0A]"

definition scenario_A :: world where
  "scenario_A = proc_world 2 [(''/proc/stat'', [Lines [stat_100_30], Lines [stat_120_42]])]"

definition cpu_sampled_100_30 :: corelib_state where
  "cpu_sampled_100_30 = corelib_init\<lparr>prev_cpu_total_time := 100, prev_cpu_work_time := 30\<rparr>"

definition scenario_A_second :: world where
  "scenario_A_second = proc_world 2 [(''/proc/stat'', [Lines [stat_120_42]])]"


text \<open>
  The counters stall: a third read of \<open>/proc/stat\<close> returns what the second returned, as
  happens when two calls follow each other within one clock tick.
\<close>

definition scenario_A_stalled :: world where
  "scenario_A_stalled = proc_world 2
     [(''/proc/stat'', [Lines [stat_100_30], Lines [stat_120_42], Lines [stat_120_42]])]"

definition cpu_sampled_120_42 :: corelib_state where
  "cpu_sampled_120_42 = corelib_init\<lparr>prev_cpu_total_time := 120, prev_cpu_work_time := 42\<rparr>"

definition stalled_from_start :: world where
  "stalled_from_start = proc_world 2 [(''/proc/stat'', [Lines [stat_120_42], Lines [stat_120_42]])]"

text \<open>
  Process 7: a line of \<open>/proc/7/stat\<close> whose utime, stime, cutime and cstime add up to 50, a
  traffic record as the callback stores it, and a registry that watches the pid while the
  capture thread runs; the last total CPU time recorded is 120.
\<close>

definition pid7_stat_50 :: string where
  "pid7_stat_50 =
     ''7 (python) S 1 7 7 0 -1 4194304 100 0 0 0 40 10 0 0 20 0 1 0 100 1000000 200 4096''
     @ [CHR 0x0A]"

definition traffic_7 :: process_net_data where
  "traffic_7 =
     \<lparr>d_pid = 7, d_uid = 1000, d_action = ''SET'', d_pid_name = ''python'', d_record_id = 1,
      d_time = ''12:00:00'', d_device = ''eth0'', d_sent_bytes = 2048, d_recv_bytes = 4096,
      d_sent_kbs = 1.5, d_recv_kbs = 3\<rparr>"

definition nethogs_event_7 :: NethogsMonitorRecord where
  "nethogs_event_7 =
     \<lparr>nh_record_id = 1, nh_name = ''python'', nh_pid = 7, nh_uid = 1000,
      nh_device_name = ''eth0'', nh_sent_bytes = 2048, nh_recv_bytes = 4096,
      nh_sent_kbs = 1.5, nh_recv_kbs = 3\<rparr>"

definition watching_7 :: "proc_info \<Rightarrow> all_process_info" where
  "watching_7 info =
     \<lparr>watch_pid = {7}, process_info = [''7'' \<mapsto> info], proc_prev_cpu_total_time = 120,
      libnethogs_thread = True, libnethogs_thread_install = True, libnethogs = True,
      libnethogs_data = [''7'' \<mapsto> traffic_7]\<rparr>"

definition pid7_cpu_50 :: proc_info where
  "pid7_cpu_50 = \<lparr>pre_time = 0, prev_cpu_time = Some 50, prev_io = None\<rparr>"

definition pid7_stalled :: world where
  "pid7_stalled = proc_world 2
     [(''/proc/stat'', [Lines [stat_120_42]]), (''/proc/7/stat'', [Lines [pid7_stat_50]])]"

definition pid7_stalled_from_start :: world where
  "pid7_stalled_from_start = proc_world 2
     [(''/proc/stat'', [Lines [stat_120_42], Lines [stat_120_42]]),
      (''/proc/7/stat'', [Lines [pid7_stat_50], Lines [pid7_stat_50]])]"

text \<open>A counter goes backwards: the work time read is 30 after 42 was stored.\<close>

definition stat_140_30 :: string where
  "stat_140_30 = ''cpu  20 5 5 100 5 2 2 1 0 0'' @ [CHR 0x0A]"

definition scenario_reset :: world where
  "scenario_reset = proc_world 2
     [(''/proc/stat'', [Lines [stat_100_30], Lines [stat_120_42], Lines [stat_140_30]])]"

definition cpu_reset :: world where
  "cpu_reset = proc_world 2 [(''/proc/stat'', [Lines [stat_140_30]])]"

text \<open>
  \<open>/proc/net/dev\<close> with the loopback device and one Ethernet device, whose received and sent
  byte counts are given as they are printed.
\<close>

definition net_dev_table :: "string \<Rightarrow> string \<Rightarrow> string list" where
  "net_dev_table recv sent =
     [''Inter-|   Receive                                                |  Transmit''
        @ [CHR 0x0A],
      '' face |bytes    packets errs drop fifo frame compressed multicast|bytes    packets errs drop fifo colls carrier compressed''
        @ [CHR 0x0A],
      ''    lo: 2776770   11307    0    0    0     0          0         0  2776770   11307    0    0    0     0       0          0''
        @ [CHR 0x0A],
      ''  eth0: '' @ recv @ ''    2751    0    0    0     0          0         0  '' @ sent
        @ ''    4324    0    0    0   427       0          0'' @ [CHR 0x0A]]"

definition net_sampled :: "int \<Rightarrow> int \<Rightarrow> corelib_state" where
  "net_sampled recv sent =
     corelib_init\<lparr>prev_net_receive_byte := recv, prev_net_send_byte := sent, prev_net_time := 0\<rparr>"

text \<open>A world whose clock has been read once already, so that the next reading is \<open>step\<close>.\<close>

definition later_world :: "real \<Rightarrow> (string \<times> file_read list) list \<Rightarrow> world" where
  "later_world step fs = (proc_world step fs)\<lparr>ticks := 1\<rparr>"

definition net_reset :: world where
  "net_reset = later_world 1 [(''/proc/net/dev'', [Lines (net_dev_table ''1048576'' ''2048'')])]"

definition pid7_stat_40 :: string where
  "pid7_stat_40 =
     ''7 (python) S 1 7 7 0 -1 4194304 100 0 0 0 30 10 0 0 20 0 1 0 100 1000000 200 4096''
     @ [CHR 0x0A]"

definition pid7_cpu_reset :: world where
  "pid7_cpu_reset = proc_world 2
     [(''/proc/stat'', [Lines [stat_140_30]]), (''/proc/7/stat'', [Lines [pid7_stat_40]])]"

text \<open>\<open>/proc/7/io\<close> with the given rchar and wchar.\<close>

definition pid_io_file :: "string \<Rightarrow> string \<Rightarrow> string list" where
  "pid_io_file rchar wchar =
     [''rchar: '' @ rchar @ [CHR 0x0A], ''wchar: '' @ wchar @ [CHR 0x0A],
      ''syscr: 632687'' @ [CHR 0x0A], ''syscw: 632675'' @ [CHR 0x0A]]"

definition pid7_io_sampled :: "int \<Rightarrow> int \<Rightarrow> proc_info" where
  "pid7_io_sampled rchar wchar =
     \<lparr>pre_time = 0, prev_cpu_time = Some 50, prev_io = Some (rchar, wchar)\<rparr>"

definition pid7_io_reset :: world where
  "pid7_io_reset = later_world 2 [(''/proc/7/io'', [Lines (pid_io_file ''0'' ''0'')])]"

text \<open>Process 7 has exited: \<open>/proc/7/stat\<close> is gone, \<open>/proc/stat\<close> still reads.\<close>

definition pid7_exited :: world where
  "pid7_exited = proc_world 2 [(''/proc/stat'', [Lines [stat_140_30]])]"

text \<open>
  Two watched processes. \<open>stat_line idle\<close> is a first line of \<open>/proc/stat\<close> with total
  time 100 + idle; \<open>pid_stat_line pid utime\<close> is the line of \<open>/proc/[pid]/stat\<close> of a process
  whose CPU time is utime. The totals read are 1000, 1200, 1300, 1500 and 1600; process 1 has
  used 100, 150 and 350 ticks at its three reads, process 2 has used 10 and 20.
\<close>

definition stat_line :: "string \<Rightarrow> string" where
  "stat_line idle = ''cpu  60 10 30 '' @ idle @ '' 0 0 0 0 0 0'' @ [CHR 0x0A]"

definition pid_stat_line :: "string \<Rightarrow> string \<Rightarrow> string" where
  "pid_stat_line pid utime =
     pid @ '' (worker) S 1 1 1 0 -1 4194304 100 0 0 0 '' @ utime
       @ '' 0 0 0 20 0 1 0 100 1000000 200 4096'' @ [CHR 0x0A]"

definition two_pids :: world where
  "two_pids = proc_world 2
     [(''/proc/stat'',
       [Lines [stat_line ''900''], Lines [stat_line ''1100''], Lines [stat_line ''1200''],
        Lines [stat_line ''1400''], Lines [stat_line ''1500'']]),
      (''/proc/1/stat'',
       [Lines [pid_stat_line ''1'' ''100''], Lines [pid_stat_line ''1'' ''150''],
        Lines [pid_stat_line ''1'' ''350'']]),
      (''/proc/2/stat'',
       [Lines [pid_stat_line ''2'' ''10''], Lines [pid_stat_line ''2'' ''20'']])]"

text \<open>
  A host with a wired device and the on-board wireless device \<open>wlo1\<close>, next to the loopback
  device.
\<close>

definition wireless_host_table :: "string list" where
  "wireless_host_table =
     net_dev_table ''1000'' ''2000''
     @ [''  wlo1: 500000    2751    0    0    0     0          0         0  70000    4324    0    0    0   427       0          0''
          @ [CHR 0x0A]]"

definition wireless_host :: world where
  "wireless_host = proc_world 2 [(''/proc/net/dev'', [Lines wireless_host_table])]"

text \<open>
  The sums as the claim words them, for comparison: every line of the device table that names a
  device counts, except the one whose device name is exactly \<open>lo\<close>.
\<close>

fun sum_excluding_loopback :: "string list \<Rightarrow> int \<times> int \<Rightarrow> error + int \<times> int" where
  "sum_excluding_loopback [] acc = Inr acc"
| "sum_excluding_loopback (line # rest) (receive_bytes, send_bytes) =
     (if py_count '':'' line \<noteq> 0 \<and> py_strip (hd (py_split CHR '':'' line)) \<noteq> ''lo''
      then (case py_index (py_split_max CHR '':'' 2 line) 1 of
              Inl e \<Rightarrow> Inl e
            | Inr field \<Rightarrow>
           (case map_int (filter (\<lambda>x. x \<noteq> []) (py_split CHR '' '' (py_strip field))) of
              Inl e \<Rightarrow> Inl e
            | Inr dev_data \<Rightarrow>
           (case py_index dev_data 0 of
              Inl e \<Rightarrow> Inl e
            | Inr r \<Rightarrow>
           (case py_index dev_data 8 of
              Inl e \<Rightarrow> Inl e
            | Inr t \<Rightarrow> sum_excluding_loopback rest (receive_bytes + r, send_bytes + t)))))
      else sum_excluding_loopback rest (receive_bytes, send_bytes))"

text \<open>
  Scenario C: 1048576 bytes received, then 2097152 one second later. Scenario D: process 7 has
  read 0 bytes, then 2000000 two seconds later. Each is given as a first call (the function
  takes both samples itself) and as a later call against the stored first sample.
\<close>

definition scenario_C :: world where
  "scenario_C = proc_world 1
     [(''/proc/net/dev'', [Lines (net_dev_table ''1048576'' ''2048''),
                           Lines (net_dev_table ''2097152'' ''4096'')])]"

definition scenario_C_second :: world where
  "scenario_C_second = later_world 1
     [(''/proc/net/dev'', [Lines (net_dev_table ''2097152'' ''4096'')])]"

definition scenario_D :: world where
  "scenario_D = proc_world 2
     [(''/proc/7/io'', [Lines (pid_io_file ''0'' ''0''), Lines (pid_io_file ''2000000'' ''0'')])]"

definition scenario_D_second :: world where
  "scenario_D_second = later_world 2 [(''/proc/7/io'', [Lines (pid_io_file ''2000000'' ''0'')])]"

text \<open>
  An idle machine whose work time reads 0 at every sample, and a host with no device but the
  loopback device, whose received bytes therefore sum to 0 at every sample.
\<close>

definition idle_cpu :: world where
  "idle_cpu = proc_world 2
     [(''/proc/stat'',
       [Lines [''cpu  0 0 0 100 0 0 0 0 0 0''], Lines [''cpu  0 0 0 200 0 0 0 0 0 0''],
        Lines [''cpu  0 0 0 300 0 0 0 0 0 0''], Lines [''cpu  0 0 0 400 0 0 0 0 0 0'']])]"

definition loopback_host :: world where
  "loopback_host = proc_world 2
     [(''/proc/net/dev'',
       [Lines (take 3 (net_dev_table ''0'' ''0'')), Lines (take 3 (net_dev_table ''0'' ''0'')),
        Lines (take 3 (net_dev_table ''0'' ''0'')), Lines (take 3 (net_dev_table ''0'' ''0''))])]"

section \<open>What one call does\<close>

text \<open>Reading a counter file leaves the clock and the logs of the world alone.\<close>

lemma get_total_cpu_time_world:
  "get_total_cpu_time w = (r, w') \<Longrightarrow>
     slept w' = slept w \<and> ticks w' = ticks w \<and> clock w' = clock w \<and> stdout w' = stdout w"
  by (auto simp: get_total_cpu_time_def open_read_def Let_def
      split: list.splits sum.splits prod.splits file_read.splits)

lemma get_net_dev_data_world:
  "get_net_dev_data w = (r, w') \<Longrightarrow>
     slept w' = slept w \<and> ticks w' = ticks w \<and> clock w' = clock w \<and> stdout w' = stdout w"
  by (auto simp: get_net_dev_data_def open_read_def
      split: list.splits sum.splits prod.splits file_read.splits)

text \<open>\<open>calc_cpu_percent\<close> with a stored sample, and without one.\<close>

lemma calc_cpu_percent_warm:
  assumes "prev_cpu_work_time s \<noteq> 0"
    and "get_total_cpu_time w = (Inr (ct, cw), w')"
  shows "calc_cpu_percent interval s w =
           (if ct = prev_cpu_total_time s then (Inl ZeroDivisionError, s, w')
            else (Inr (real_of_int (cw - prev_cpu_work_time s) * 100
                        / real_of_int (ct - prev_cpu_total_time s)),
                  s\<lparr>prev_cpu_total_time := ct, prev_cpu_work_time := cw\<rparr>, w'))"
  using assms by (simp add: calc_cpu_percent_def)

lemma calc_cpu_percent_cold:
  assumes "prev_cpu_work_time s = 0"
    and "get_total_cpu_time w = (Inr (bt, bw), w1)"
    and "get_total_cpu_time (sleep interval w1) = (Inr (ct, cw), w2)"
  shows "calc_cpu_percent interval s w =
           (if ct = bt
            then (Inl ZeroDivisionError,
                  s\<lparr>prev_cpu_total_time := bt, prev_cpu_work_time := bw\<rparr>, w2)
            else (Inr (real_of_int (cw - bw) * 100 / real_of_int (ct - bt)),
                  s\<lparr>prev_cpu_total_time := ct, prev_cpu_work_time := cw\<rparr>, w2))"
  using assms by (simp add: calc_cpu_percent_def)

text \<open>The runs of scenario A, read from the file contents.\<close>

lemma scenario_A_second_read:
  "fst (get_total_cpu_time scenario_A_second) = Inr (120, 42)"
  by (simp add: scenario_A_second_def proc_world_def stat_120_42_def get_total_cpu_time_def
      open_read_def readline_def py_strip_def py_isspace_def py_split_def py_int_def
      py_isdigit_def digits_val_def digit_val_def)

lemma scenario_A_cold_run:
  "fst (calc_cpu_percent 2 corelib_init scenario_A) = Inr 60"
  by (simp add: scenario_A_def proc_world_def stat_100_30_def stat_120_42_def corelib_init_def
      calc_cpu_percent_def sleep_def get_total_cpu_time_def
      open_read_def readline_def py_strip_def py_isspace_def py_split_def py_int_def
      py_isdigit_def digits_val_def digit_val_def)

text \<open>
  C8. With a stored previous sample, \<open>calc_cpu_percent\<close> returns
  (currWork - prevWork) * 100 / (currTotal - prevTotal), whenever the two totals differ; the
  counters (total 100, work 30) followed by (total 120, work 42) give 60.
\<close>

theorem calc_cpu_percent_formula:
  assumes "prev_cpu_work_time s \<noteq> 0"
    and "fst (get_total_cpu_time w) = Inr (currTotal, currWork)"
    and "currTotal \<noteq> prev_cpu_total_time s"
  shows "fst (calc_cpu_percent interval s w) =
           Inr (real_of_int (currWork - prev_cpu_work_time s) * 100
                 / real_of_int (currTotal - prev_cpu_total_time s))"
proof -
  from assms(2) obtain w' where "get_total_cpu_time w = (Inr (currTotal, currWork), w')"
    by (cases "get_total_cpu_time w") simp
  from calc_cpu_percent_warm [OF assms(1) this, of interval] assms(3)
  show ?thesis by simp
qed

theorem calc_cpu_percent_formula_witness:
  "fst (calc_cpu_percent 2 cpu_sampled_100_30 scenario_A_second) = Inr 60
   \<and> fst (calc_cpu_percent 2 corelib_init scenario_A) = Inr 60"
proof -
  have warm: "prev_cpu_work_time cpu_sampled_100_30 \<noteq> 0"
    by (simp add: cpu_sampled_100_30_def)
  have differ: "120 \<noteq> prev_cpu_total_time cpu_sampled_100_30"
    by (simp add: cpu_sampled_100_30_def)
  from calc_cpu_percent_formula [OF warm scenario_A_second_read differ, of 2]
  have "fst (calc_cpu_percent 2 cpu_sampled_100_30 scenario_A_second) = Inr 60"
    by (simp add: cpu_sampled_100_30_def)
  with scenario_A_cold_run show ?thesis by simp
qed




text \<open>The per-process sampling functions, with a stored sample and without one.\<close>

lemma add_watched_watched: "pid \<in> watch_pid s \<Longrightarrow> add_watched pid s = s"
  by (simp add: add_watched_def)

lemma calc_process_cpu_percent_warm:
  assumes "pid \<in> watch_pid s"
    and "process_info s (py_str pid) = Some info"
    and "prev_cpu_time info = Some prev"
    and "get_total_cpu_time w = (Inr (ct, cw), w1)"
    and "get_process_cpu_time pid w1 = (Inr cp, w2)"
  shows "calc_process_cpu_percent pid interval s w =
           (if ct = proc_prev_cpu_total_time s then (Inl ZeroDivisionError, s, w2)
            else (Inr (real_of_int (cp - prev) * 100
                        / real_of_int (ct - proc_prev_cpu_total_time s)),
                  s\<lparr>process_info := (process_info s)
                        (py_str pid \<mapsto> info\<lparr>prev_cpu_time := Some cp\<rparr>),
                    proc_prev_cpu_total_time := ct\<rparr>,
                  w2))"
  using assms by (simp add: calc_process_cpu_percent_def add_watched_watched)

lemma calc_process_cpu_percent_lookup_fails:
  assumes "pid \<in> watch_pid s"
    and "process_info s (py_str pid) = Some info"
    and "prev_cpu_time info = Some prev"
    and "get_total_cpu_time w = (Inr (ct, cw), w1)"
    and "get_process_cpu_time pid w1 = (Inl e, w2)"
  shows "calc_process_cpu_percent pid interval s w = (Inl e, s, w2)"
  using assms by (simp add: calc_process_cpu_percent_def add_watched_watched)

lemma calc_process_cpu_percent_cold:
  assumes "process_info (add_watched pid s) (py_str pid) = Some info"
    and "prev_cpu_time info = None"
    and "get_total_cpu_time w = (Inr (bt, bw), w1)"
    and "get_process_cpu_time pid w1 = (Inr bp, w2)"
    and "get_total_cpu_time (sleep interval w2) = (Inr (ct, cw), w3)"
    and "get_process_cpu_time pid w3 = (Inr cp, w4)"
  shows "calc_process_cpu_percent pid interval s w =
           (if ct = bt
            then (Inl ZeroDivisionError,
                  (add_watched pid s)\<lparr>proc_prev_cpu_total_time := bt,
                     process_info := (process_info (add_watched pid s))
                        (py_str pid \<mapsto> info\<lparr>prev_cpu_time := Some bp\<rparr>)\<rparr>, w4)
            else (Inr (real_of_int (cp - bp) * 100 / real_of_int (ct - bt)),
                  (add_watched pid s)\<lparr>process_info := (process_info (add_watched pid s))
                        (py_str pid \<mapsto> info\<lparr>prev_cpu_time := Some cp\<rparr>),
                     proc_prev_cpu_total_time := ct\<rparr>,
                  w4))"
  using assms by (simp add: calc_process_cpu_percent_def Let_def)

text \<open>Evaluation of the parsers on concrete file contents unfolds these definitions.\<close>

lemmas parse_defs =
  open_read_def readline_def py_strip_def py_strip_chars_def py_isspace_def py_split_def
  py_index_def py_int_def py_isdigit_def digits_val_def digit_val_def

lemma py_str_7: "py_str 7 = ''7''"
  by (simp add: py_str_def str_nat.simps)

text \<open>
  C1 as stated does not hold. From the initial state, with \<open>/proc/stat\<close> reading totals
  100, 120 and 120: the first call returns 60, the second one divides by zero, and
  \<open>ZeroDivisionError\<close> escapes it instead of a report that nothing can be measured yet.
\<close>

theorem zero_total_delta_counterexample:
  "fst (calc_cpu_percent 2 corelib_init scenario_A_stalled) = Inr 60
   \<and> fst (calc_cpu_percent 2
            (fst (snd (calc_cpu_percent 2 corelib_init scenario_A_stalled)))
            (snd (snd (calc_cpu_percent 2 corelib_init scenario_A_stalled))))
       = Inl ZeroDivisionError"
  by (simp add: scenario_A_stalled_def proc_world_def stat_100_30_def stat_120_42_def
      corelib_init_def calc_cpu_percent_def sleep_def get_total_cpu_time_def parse_defs)

text \<open>
  C1, as the code has it. The division by the difference of the two totals is not guarded:
  when the total read for the sample equals the total it is compared with (the stored one, or
  the baseline the same call has just taken), \<open>ZeroDivisionError\<close> escapes the call, and the
  previous sample stays as it was before the division: the stored one on a later call, the
  baseline just taken on a first call.
\<close>

theorem zero_total_delta_raises:
  "(prev_cpu_work_time s \<noteq> 0
      \<and> fst (get_total_cpu_time w) = Inr (prev_cpu_total_time s, cw)
    \<longrightarrow> fst (calc_cpu_percent interval s w) = Inl ZeroDivisionError
        \<and> fst (snd (calc_cpu_percent interval s w)) = s)
   \<and> (prev_cpu_work_time s = 0
      \<and> fst (get_total_cpu_time w) = Inr (bt, bw)
      \<and> fst (get_total_cpu_time (sleep interval (snd (get_total_cpu_time w)))) = Inr (bt, cw)
    \<longrightarrow> fst (calc_cpu_percent interval s w) = Inl ZeroDivisionError
        \<and> fst (snd (calc_cpu_percent interval s w))
            = s\<lparr>prev_cpu_total_time := bt, prev_cpu_work_time := bw\<rparr>)
   \<and> (pid \<in> watch_pid p
      \<and> process_info p (py_str pid) = Some info \<and> prev_cpu_time info = Some prev
      \<and> fst (get_total_cpu_time w) = Inr (proc_prev_cpu_total_time p, cw)
      \<and> fst (get_process_cpu_time pid (snd (get_total_cpu_time w))) = Inr cp
    \<longrightarrow> fst (calc_process_cpu_percent pid interval p w) = Inl ZeroDivisionError
        \<and> fst (snd (calc_process_cpu_percent pid interval p w)) = p)
   \<and> (process_info (add_watched pid p) (py_str pid) = Some info \<and> prev_cpu_time info = None
      \<and> get_total_cpu_time w = (Inr (bt, bw), wa)
      \<and> get_process_cpu_time pid wa = (Inr bp, wb)
      \<and> get_total_cpu_time (sleep interval wb) = (Inr (bt, cw), wc)
      \<and> get_process_cpu_time pid wc = (Inr cp, wd)
    \<longrightarrow> fst (calc_process_cpu_percent pid interval p w) = Inl ZeroDivisionError
        \<and> fst (snd (calc_process_cpu_percent pid interval p w))
            = (add_watched pid p)\<lparr>proc_prev_cpu_total_time := bt,
                 process_info := (process_info (add_watched pid p))
                   (py_str pid \<mapsto> info\<lparr>prev_cpu_time := Some bp\<rparr>)\<rparr>)"
proof (intro conjI impI)
  assume h: "prev_cpu_work_time s \<noteq> 0
      \<and> fst (get_total_cpu_time w) = Inr (prev_cpu_total_time s, cw)"
  then obtain w' where "get_total_cpu_time w = (Inr (prev_cpu_total_time s, cw), w')"
    by (cases "get_total_cpu_time w") simp
  with h have r: "calc_cpu_percent interval s w = (Inl ZeroDivisionError, s, w')"
    by (simp add: calc_cpu_percent_warm)
  from r show "fst (calc_cpu_percent interval s w) = Inl ZeroDivisionError" by simp
  from r show "fst (snd (calc_cpu_percent interval s w)) = s" by simp
next
  assume h: "prev_cpu_work_time s = 0
      \<and> fst (get_total_cpu_time w) = Inr (bt, bw)
      \<and> fst (get_total_cpu_time (sleep interval (snd (get_total_cpu_time w)))) = Inr (bt, cw)"
  then obtain w1 where r1: "get_total_cpu_time w = (Inr (bt, bw), w1)"
    by (cases "get_total_cpu_time w") simp
  with h obtain w2 where r2: "get_total_cpu_time (sleep interval w1) = (Inr (bt, cw), w2)"
    by (cases "get_total_cpu_time (sleep interval w1)") simp
  from h have "prev_cpu_work_time s = 0" by simp
  from calc_cpu_percent_cold [OF this r1 r2]
  have r: "calc_cpu_percent interval s w =
             (Inl ZeroDivisionError,
              s\<lparr>prev_cpu_total_time := bt, prev_cpu_work_time := bw\<rparr>, w2)"
    by simp
  from r show "fst (calc_cpu_percent interval s w) = Inl ZeroDivisionError" by simp
  from r show "fst (snd (calc_cpu_percent interval s w))
                 = s\<lparr>prev_cpu_total_time := bt, prev_cpu_work_time := bw\<rparr>" by simp
next
  assume h: "pid \<in> watch_pid p
      \<and> process_info p (py_str pid) = Some info \<and> prev_cpu_time info = Some prev
      \<and> fst (get_total_cpu_time w) = Inr (proc_prev_cpu_total_time p, cw)
      \<and> fst (get_process_cpu_time pid (snd (get_total_cpu_time w))) = Inr cp"
  then obtain w1 where r1: "get_total_cpu_time w = (Inr (proc_prev_cpu_total_time p, cw), w1)"
    by (cases "get_total_cpu_time w") simp
  with h obtain w2 where r2: "get_process_cpu_time pid w1 = (Inr cp, w2)"
    by (cases "get_process_cpu_time pid w1") simp
  from h have a: "pid \<in> watch_pid p" "process_info p (py_str pid) = Some info"
    "prev_cpu_time info = Some prev" by simp_all
  from calc_process_cpu_percent_warm [OF a r1 r2]
  have r: "calc_process_cpu_percent pid interval p w = (Inl ZeroDivisionError, p, w2)"
    by simp
  from r show "fst (calc_process_cpu_percent pid interval p w) = Inl ZeroDivisionError" by simp
  from r show "fst (snd (calc_process_cpu_percent pid interval p w)) = p" by simp
next
  assume h: "process_info (add_watched pid p) (py_str pid) = Some info \<and> prev_cpu_time info = None
      \<and> get_total_cpu_time w = (Inr (bt, bw), wa)
      \<and> get_process_cpu_time pid wa = (Inr bp, wb)
      \<and> get_total_cpu_time (sleep interval wb) = (Inr (bt, cw), wc)
      \<and> get_process_cpu_time pid wc = (Inr cp, wd)"
  then have a: "process_info (add_watched pid p) (py_str pid) = Some info"
    "prev_cpu_time info = None" "get_total_cpu_time w = (Inr (bt, bw), wa)"
    "get_process_cpu_time pid wa = (Inr bp, wb)"
    "get_total_cpu_time (sleep interval wb) = (Inr (bt, cw), wc)"
    "get_process_cpu_time pid wc = (Inr cp, wd)" by simp_all
  from calc_process_cpu_percent_cold [OF a]
  have r: "calc_process_cpu_percent pid interval p w =
             (Inl ZeroDivisionError,
              (add_watched pid p)\<lparr>proc_prev_cpu_total_time := bt,
                 process_info := (process_info (add_watched pid p))
                   (py_str pid \<mapsto> info\<lparr>prev_cpu_time := Some bp\<rparr>)\<rparr>, wd)"
    by simp
  from r show "fst (calc_process_cpu_percent pid interval p w) = Inl ZeroDivisionError" by simp
  from r show "fst (snd (calc_process_cpu_percent pid interval p w))
            = (add_watched pid p)\<lparr>proc_prev_cpu_total_time := bt,
                 process_info := (process_info (add_watched pid p))
                   (py_str pid \<mapsto> info\<lparr>prev_cpu_time := Some bp\<rparr>)\<rparr>" by simp
qed

theorem zero_total_delta_raises_witness:
  "(fst (calc_cpu_percent 2 cpu_sampled_120_42 scenario_A_second) = Inl ZeroDivisionError
    \<and> fst (snd (calc_cpu_percent 2 cpu_sampled_120_42 scenario_A_second)) = cpu_sampled_120_42)
   \<and> (fst (calc_cpu_percent 2 corelib_init stalled_from_start) = Inl ZeroDivisionError
    \<and> fst (snd (calc_cpu_percent 2 corelib_init stalled_from_start)) = cpu_sampled_120_42)
   \<and> (fst (calc_process_cpu_percent 7 2 (watching_7 pid7_cpu_50) pid7_stalled)
         = Inl ZeroDivisionError
    \<and> fst (snd (calc_process_cpu_percent 7 2 (watching_7 pid7_cpu_50) pid7_stalled))
         = watching_7 pid7_cpu_50)
   \<and> (fst (calc_process_cpu_percent 7 2 all_process_info_dict pid7_stalled_from_start)
         = Inl ZeroDivisionError
    \<and> watch_pid (fst (snd (calc_process_cpu_percent 7 2 all_process_info_dict
                               pid7_stalled_from_start))) = {7}
    \<and> process_info (fst (snd (calc_process_cpu_percent 7 2 all_process_info_dict
                                  pid7_stalled_from_start))) ''7'' = Some pid7_cpu_50
    \<and> proc_prev_cpu_total_time (fst (snd (calc_process_cpu_percent 7 2 all_process_info_dict
                                              pid7_stalled_from_start))) = 120)"
proof (intro conjI)
  have h1: "prev_cpu_work_time cpu_sampled_120_42 \<noteq> 0
      \<and> fst (get_total_cpu_time scenario_A_second)
          = Inr (prev_cpu_total_time cpu_sampled_120_42, 42)"
    by (simp add: cpu_sampled_120_42_def scenario_A_second_read)
  note c1 = zero_total_delta_raises [where s = cpu_sampled_120_42 and w = scenario_A_second
      and cw = 42 and interval = 2, THEN conjunct1, THEN mp, OF h1]
  from c1 show "fst (calc_cpu_percent 2 cpu_sampled_120_42 scenario_A_second)
                  = Inl ZeroDivisionError" by simp
  from c1 show "fst (snd (calc_cpu_percent 2 cpu_sampled_120_42 scenario_A_second))
                  = cpu_sampled_120_42" by simp
next
  have h2: "prev_cpu_work_time corelib_init = 0
      \<and> fst (get_total_cpu_time stalled_from_start) = Inr (120, 42)
      \<and> fst (get_total_cpu_time (sleep 2 (snd (get_total_cpu_time stalled_from_start))))
          = Inr (120, 42)"
    by (simp add: corelib_init_def stalled_from_start_def proc_world_def stat_120_42_def
        sleep_def get_total_cpu_time_def parse_defs)
  note c2 = zero_total_delta_raises [where s = corelib_init and w = stalled_from_start
      and bt = 120 and bw = 42 and cw = 42 and interval = 2,
      THEN conjunct2, THEN conjunct1, THEN mp, OF h2]
  from c2 show "fst (calc_cpu_percent 2 corelib_init stalled_from_start)
                  = Inl ZeroDivisionError" by simp
  from c2 show "fst (snd (calc_cpu_percent 2 corelib_init stalled_from_start))
                  = cpu_sampled_120_42"
    by (simp add: corelib_init_def cpu_sampled_120_42_def)
next
  have h3: "7 \<in> watch_pid (watching_7 pid7_cpu_50)
      \<and> process_info (watching_7 pid7_cpu_50) (py_str 7) = Some pid7_cpu_50
      \<and> prev_cpu_time pid7_cpu_50 = Some 50
      \<and> fst (get_total_cpu_time pid7_stalled)
          = Inr (proc_prev_cpu_total_time (watching_7 pid7_cpu_50), 42)
      \<and> fst (get_process_cpu_time 7 (snd (get_total_cpu_time pid7_stalled))) = Inr 50"
    by (simp add: watching_7_def pid7_cpu_50_def py_str_7 pid7_stalled_def proc_world_def
        stat_120_42_def pid7_stat_50_def get_total_cpu_time_def get_process_cpu_time_def
        wrap_process_exceptions_def parse_defs)
  note c3 = zero_total_delta_raises [where p = "watching_7 pid7_cpu_50" and w = pid7_stalled
      and pid = 7 and info = pid7_cpu_50 and prev = 50 and cw = 42 and cp = 50
      and interval = 2, THEN conjunct2, THEN conjunct2, THEN conjunct1, THEN mp, OF h3]
  from c3 show "fst (calc_process_cpu_percent 7 2 (watching_7 pid7_cpu_50) pid7_stalled)
                  = Inl ZeroDivisionError" by simp
  from c3 show "fst (snd (calc_process_cpu_percent 7 2 (watching_7 pid7_cpu_50) pid7_stalled))
                  = watching_7 pid7_cpu_50" by simp
next
  define w1 where "w1 = snd (get_total_cpu_time pid7_stalled_from_start)"
  define w2 where "w2 = snd (get_process_cpu_time 7 w1)"
  define w3 where "w3 = snd (get_total_cpu_time (sleep 2 w2))"
  define w4 where "w4 = snd (get_process_cpu_time 7 w3)"
  have h4: "process_info (add_watched 7 all_process_info_dict) (py_str 7) = Some process_info_dict
      \<and> prev_cpu_time process_info_dict = None
      \<and> get_total_cpu_time pid7_stalled_from_start = (Inr (120, 42), w1)
      \<and> get_process_cpu_time 7 w1 = (Inr 50, w2)
      \<and> get_total_cpu_time (sleep 2 w2) = (Inr (120, 42), w3)
      \<and> get_process_cpu_time 7 w3 = (Inr 50, w4)"
    unfolding w1_def w2_def w3_def w4_def
    by (simp add: prod_eq_iff add_watched_def all_process_info_dict_def process_info_dict_def
        py_str_7 pid7_stalled_from_start_def proc_world_def sleep_def
        stat_120_42_def pid7_stat_50_def get_total_cpu_time_def get_process_cpu_time_def
        wrap_process_exceptions_def parse_defs)
  note c4 = zero_total_delta_raises [where p = all_process_info_dict
      and w = pid7_stalled_from_start
      and pid = 7 and info = process_info_dict and bt = 120 and bw = 42 and wa = w1
      and bp = 50 and wb = w2 and cw = 42 and wc = w3 and cp = 50 and wd = w4
      and interval = 2, THEN conjunct2, THEN conjunct2, THEN conjunct2, THEN mp, OF h4]
  from c4 show "fst (calc_process_cpu_percent 7 2 all_process_info_dict pid7_stalled_from_start)
          = Inl ZeroDivisionError" by simp
  from c4 show "watch_pid (fst (snd (calc_process_cpu_percent 7 2 all_process_info_dict
                               pid7_stalled_from_start))) = {7}"
    by (simp add: add_watched_def all_process_info_dict_def)
  from c4 show "process_info (fst (snd (calc_process_cpu_percent 7 2 all_process_info_dict
                                  pid7_stalled_from_start))) ''7'' = Some pid7_cpu_50"
    by (simp add: py_str_7 process_info_dict_def pid7_cpu_50_def)
  from c4 show "proc_prev_cpu_total_time (fst (snd (calc_process_cpu_percent 7 2
                  all_process_info_dict pid7_stalled_from_start))) = 120"
    by simp
qed

text \<open>\<open>calc_net_speed\<close> and \<open>calc_process_cpu_io\<close>, with a stored sample and without one.\<close>

lemma calc_net_speed_warm:
  assumes "prev_net_receive_byte s \<noteq> 0"
    and "get_net_dev_data w = (Inr (cr, cs), w')"
  shows "calc_net_speed interval s w =
           (if clock w' (ticks w') = prev_net_time s
            then (Inl ZeroDivisionError, s, snd (time w'))
            else (Inr (real_of_int (cr - prev_net_receive_byte s) / 1024
                         / (clock w' (ticks w') - prev_net_time s),
                       real_of_int (cs - prev_net_send_byte s) / 1024
                         / (clock w' (ticks w') - prev_net_time s)),
                  s\<lparr>prev_net_receive_byte := cr, prev_net_send_byte := cs,
                    prev_net_time := clock w' (ticks w')\<rparr>,
                  snd (time w')))"
  using assms by (simp add: calc_net_speed_def time_def)

lemma calc_net_speed_cold:
  assumes "prev_net_receive_byte s = 0"
    and "get_net_dev_data w = (Inr (br, bs), w1)"
    and "get_net_dev_data (sleep interval (snd (time w1))) = (Inr (cr, cs), w2)"
  shows "calc_net_speed interval s w =
           (if clock w2 (ticks w2) = clock w1 (ticks w1)
            then (Inl ZeroDivisionError,
                  s\<lparr>prev_net_receive_byte := br, prev_net_send_byte := bs,
                    prev_net_time := clock w1 (ticks w1)\<rparr>, snd (time w2))
            else (Inr (real_of_int (cr - br) / 1024 / (clock w2 (ticks w2) - clock w1 (ticks w1)),
                       real_of_int (cs - bs) / 1024 / (clock w2 (ticks w2) - clock w1 (ticks w1))),
                  s\<lparr>prev_net_receive_byte := cr, prev_net_send_byte := cs,
                    prev_net_time := clock w2 (ticks w2)\<rparr>,
                  snd (time w2)))"
  using assms by (simp add: calc_net_speed_def time_def)

lemma calc_process_cpu_io_warm:
  assumes "pid \<in> watch_pid s"
    and "process_info s (py_str pid) = Some info"
    and "prev_io info = Some (pr, pw)"
    and "get_process_io pid (snd (time w)) = (Inr (cr, cw), w')"
  shows "calc_process_cpu_io pid interval s w =
           (if clock w (ticks w) = pre_time info then (Inl ZeroDivisionError, s, w')
            else (Inr (round2 (real_of_int (cr - pr) / 1000 ^ 2
                                / (clock w (ticks w) - pre_time info)),
                       round2 (real_of_int (cw - pw) / 1000 ^ 2
                                / (clock w (ticks w) - pre_time info))),
                  s\<lparr>process_info := (process_info s)
                        (py_str pid \<mapsto> info\<lparr>prev_io := Some (cr, cw),
                                              pre_time := clock w (ticks w)\<rparr>)\<rparr>,
                  w'))"
  using assms by (simp add: calc_process_cpu_io_def add_watched_watched time_def)

lemma calc_process_cpu_io_cold:
  assumes "process_info (add_watched pid s) (py_str pid) = Some info"
    and "prev_io info = None"
    and "get_process_io pid w = (Inr (br, bw), w1)"
    and "get_process_io pid (snd (time (sleep interval (snd (time w1))))) = (Inr (cr, cw), w2)"
  shows "calc_process_cpu_io pid interval s w =
           (if clock w1 (Suc (ticks w1)) = clock w1 (ticks w1)
            then (Inl ZeroDivisionError,
                  (add_watched pid s)\<lparr>process_info := (process_info (add_watched pid s))
                     (py_str pid \<mapsto> info\<lparr>prev_io := Some (br, bw),
                                           pre_time := clock w1 (ticks w1)\<rparr>)\<rparr>, w2)
            else (Inr (round2 (real_of_int (cr - br) / 1000 ^ 2
                                / (clock w1 (Suc (ticks w1)) - clock w1 (ticks w1))),
                       round2 (real_of_int (cw - bw) / 1000 ^ 2
                                / (clock w1 (Suc (ticks w1)) - clock w1 (ticks w1)))),
                  (add_watched pid s)\<lparr>process_info := (process_info (add_watched pid s))
                     (py_str pid \<mapsto> info\<lparr>prev_io := Some (cr, cw),
                                           pre_time := clock w1 (Suc (ticks w1))\<rparr>)\<rparr>,
                  w2))"
  using assms by (simp add: calc_process_cpu_io_def Let_def time_def sleep_def)

text \<open>A counter that went backwards over a positive interval gives a negative quotient.\<close>

lemma negative_percent:
  "a < (b::int) \<Longrightarrow> (p::int) < t \<Longrightarrow> real_of_int (a - b) * 100 / real_of_int (t - p) < 0"
  by (simp add: divide_less_0_iff)

lemma negative_rate:
  "a < (b::int) \<Longrightarrow> (p::real) < t \<Longrightarrow> 0 < k \<Longrightarrow> real_of_int (a - b) / k / (t - p) < 0"
  by (simp add: divide_less_0_iff)

lemma round2_not_positive: "x < 0 \<Longrightarrow> round2 x \<le> 0"
  by (simp add: round2_def)

text \<open>
  C2 as stated does not hold. From the initial state, with \<open>/proc/stat\<close> reading work
  times 30, 42 and then 30 again while the total goes from 100 over 120 to 140: the second call
  returns the negative percentage -60.
\<close>

theorem counter_reset_counterexample:
  "fst (calc_cpu_percent 2 corelib_init scenario_reset) = Inr 60
   \<and> fst (calc_cpu_percent 2
            (fst (snd (calc_cpu_percent 2 corelib_init scenario_reset)))
            (snd (snd (calc_cpu_percent 2 corelib_init scenario_reset))))
       = Inr (- 60)"
  by (simp add: scenario_reset_def proc_world_def stat_100_30_def stat_120_42_def
      stat_140_30_def corelib_init_def calc_cpu_percent_def sleep_def get_total_cpu_time_def
      parse_defs)

text \<open>
  C2, as the code has it. No sampling function compares a counter it reads with the stored
  one: a call against a stored sample returns the quotients of the ordinary formula and stores
  the current values and time as the previous sample, whatever the counters did. So whenever a
  counter read (work time, CPU time of the process, received or sent bytes, rchar or wchar)
  is below its stored value while the total time, respectively the clock, has advanced, the
  rate reported for that counter is negative (for the disk rates: rounded to two decimals,
  hence not positive).
\<close>

theorem counter_reset_gives_negative_rate:
  "(prev_cpu_work_time s \<noteq> 0
      \<and> fst (get_total_cpu_time w) = Inr (ct, cw)
      \<and> ct \<noteq> prev_cpu_total_time s
    \<longrightarrow> fst (calc_cpu_percent interval s w)
          = Inr (real_of_int (cw - prev_cpu_work_time s) * 100
                  / real_of_int (ct - prev_cpu_total_time s))
        \<and> fst (snd (calc_cpu_percent interval s w))
            = s\<lparr>prev_cpu_total_time := ct, prev_cpu_work_time := cw\<rparr>
        \<and> (cw < prev_cpu_work_time s \<and> prev_cpu_total_time s < ct
           \<longrightarrow> real_of_int (cw - prev_cpu_work_time s) * 100
                 / real_of_int (ct - prev_cpu_total_time s) < 0))
   \<and> (prev_net_receive_byte s \<noteq> 0
      \<and> fst (get_net_dev_data v) = Inr (nr, ns)
      \<and> clock v (ticks v) \<noteq> prev_net_time s
    \<longrightarrow> fst (calc_net_speed interval s v)
          = Inr (real_of_int (nr - prev_net_receive_byte s) / 1024
                   / (clock v (ticks v) - prev_net_time s),
                 real_of_int (ns - prev_net_send_byte s) / 1024
                   / (clock v (ticks v) - prev_net_time s))
        \<and> fst (snd (calc_net_speed interval s v))
            = s\<lparr>prev_net_receive_byte := nr, prev_net_send_byte := ns,
                prev_net_time := clock v (ticks v)\<rparr>
        \<and> (nr < prev_net_receive_byte s \<and> prev_net_time s < clock v (ticks v)
           \<longrightarrow> real_of_int (nr - prev_net_receive_byte s) / 1024
                 / (clock v (ticks v) - prev_net_time s) < 0)
        \<and> (ns < prev_net_send_byte s \<and> prev_net_time s < clock v (ticks v)
           \<longrightarrow> real_of_int (ns - prev_net_send_byte s) / 1024
                 / (clock v (ticks v) - prev_net_time s) < 0))
   \<and> (pid \<in> watch_pid p
      \<and> process_info p (py_str pid) = Some info \<and> prev_cpu_time info = Some prev
      \<and> fst (get_total_cpu_time w) = Inr (ct, cw)
      \<and> fst (get_process_cpu_time pid (snd (get_total_cpu_time w))) = Inr cp
      \<and> ct \<noteq> proc_prev_cpu_total_time p
    \<longrightarrow> fst (calc_process_cpu_percent pid interval p w)
          = Inr (real_of_int (cp - prev) * 100 / real_of_int (ct - proc_prev_cpu_total_time p))
        \<and> fst (snd (calc_process_cpu_percent pid interval p w))
            = p\<lparr>process_info := (process_info p)
                  (py_str pid \<mapsto> info\<lparr>prev_cpu_time := Some cp\<rparr>),
                proc_prev_cpu_total_time := ct\<rparr>
        \<and> (cp < prev \<and> proc_prev_cpu_total_time p < ct
           \<longrightarrow> real_of_int (cp - prev) * 100
                 / real_of_int (ct - proc_prev_cpu_total_time p) < 0))
   \<and> (pid \<in> watch_pid p
      \<and> process_info p (py_str pid) = Some info \<and> prev_io info = Some (pr, pw)
      \<and> fst (get_process_io pid (snd (time v))) = Inr (rc, wc)
      \<and> clock v (ticks v) \<noteq> pre_time info
    \<longrightarrow> fst (calc_process_cpu_io pid interval p v)
          = Inr (round2 (real_of_int (rc - pr) / 1000 ^ 2 / (clock v (ticks v) - pre_time info)),
                 round2 (real_of_int (wc - pw) / 1000 ^ 2 / (clock v (ticks v) - pre_time info)))
        \<and> fst (snd (calc_process_cpu_io pid interval p v))
            = p\<lparr>process_info := (process_info p)
                  (py_str pid \<mapsto> info\<lparr>prev_io := Some (rc, wc),
                                        pre_time := clock v (ticks v)\<rparr>)\<rparr>
        \<and> (rc < pr \<and> pre_time info < clock v (ticks v)
           \<longrightarrow> real_of_int (rc - pr) / 1000 ^ 2 / (clock v (ticks v) - pre_time info) < 0
               \<and> round2 (real_of_int (rc - pr) / 1000 ^ 2
                           / (clock v (ticks v) - pre_time info)) \<le> 0)
        \<and> (wc < pw \<and> pre_time info < clock v (ticks v)
           \<longrightarrow> real_of_int (wc - pw) / 1000 ^ 2 / (clock v (ticks v) - pre_time info) < 0
               \<and> round2 (real_of_int (wc - pw) / 1000 ^ 2
                           / (clock v (ticks v) - pre_time info)) \<le> 0))"
proof -
  have cpu: "fst (calc_cpu_percent interval s w)
          = Inr (real_of_int (cw - prev_cpu_work_time s) * 100
                  / real_of_int (ct - prev_cpu_total_time s))
        \<and> fst (snd (calc_cpu_percent interval s w))
            = s\<lparr>prev_cpu_total_time := ct, prev_cpu_work_time := cw\<rparr>"
    if h: "prev_cpu_work_time s \<noteq> 0
      \<and> fst (get_total_cpu_time w) = Inr (ct, cw)
      \<and> ct \<noteq> prev_cpu_total_time s"
  proof -
    from h obtain w' where "get_total_cpu_time w = (Inr (ct, cw), w')"
      by (cases "get_total_cpu_time w") simp
    with h show ?thesis by (simp add: calc_cpu_percent_warm)
  qed
  have net: "fst (calc_net_speed interval s v)
          = Inr (real_of_int (nr - prev_net_receive_byte s) / 1024
                   / (clock v (ticks v) - prev_net_time s),
                 real_of_int (ns - prev_net_send_byte s) / 1024
                   / (clock v (ticks v) - prev_net_time s))
        \<and> fst (snd (calc_net_speed interval s v))
            = s\<lparr>prev_net_receive_byte := nr, prev_net_send_byte := ns,
                prev_net_time := clock v (ticks v)\<rparr>"
    if h: "prev_net_receive_byte s \<noteq> 0
      \<and> fst (get_net_dev_data v) = Inr (nr, ns)
      \<and> clock v (ticks v) \<noteq> prev_net_time s"
  proof -
    from h obtain v' where rd: "get_net_dev_data v = (Inr (nr, ns), v')"
      by (cases "get_net_dev_data v") simp
    from get_net_dev_data_world [OF rd] have same: "clock v' (ticks v') = clock v (ticks v)"
      by simp
    from h have warm: "prev_net_receive_byte s \<noteq> 0" by simp
    from h same calc_net_speed_warm [OF warm rd, of interval] show ?thesis by simp
  qed
  have proc: "fst (calc_process_cpu_percent pid interval p w)
          = Inr (real_of_int (cp - prev) * 100 / real_of_int (ct - proc_prev_cpu_total_time p))
        \<and> fst (snd (calc_process_cpu_percent pid interval p w))
            = p\<lparr>process_info := (process_info p)
                  (py_str pid \<mapsto> info\<lparr>prev_cpu_time := Some cp\<rparr>),
                proc_prev_cpu_total_time := ct\<rparr>"
    if h: "pid \<in> watch_pid p
      \<and> process_info p (py_str pid) = Some info \<and> prev_cpu_time info = Some prev
      \<and> fst (get_total_cpu_time w) = Inr (ct, cw)
      \<and> fst (get_process_cpu_time pid (snd (get_total_cpu_time w))) = Inr cp
      \<and> ct \<noteq> proc_prev_cpu_total_time p"
  proof -
    from h obtain wa where ra: "get_total_cpu_time w = (Inr (ct, cw), wa)"
      by (cases "get_total_cpu_time w") simp
    with h obtain wb where rb: "get_process_cpu_time pid wa = (Inr cp, wb)"
      by (cases "get_process_cpu_time pid wa") simp
    from h have a: "pid \<in> watch_pid p" "process_info p (py_str pid) = Some info"
      "prev_cpu_time info = Some prev" by simp_all
    from h calc_process_cpu_percent_warm [OF a ra rb, of interval] show ?thesis by simp
  qed
  have io: "fst (calc_process_cpu_io pid interval p v)
          = Inr (round2 (real_of_int (rc - pr) / 1000 ^ 2 / (clock v (ticks v) - pre_time info)),
                 round2 (real_of_int (wc - pw) / 1000 ^ 2 / (clock v (ticks v) - pre_time info)))
        \<and> fst (snd (calc_process_cpu_io pid interval p v))
            = p\<lparr>process_info := (process_info p)
                  (py_str pid \<mapsto> info\<lparr>prev_io := Some (rc, wc),
                                        pre_time := clock v (ticks v)\<rparr>)\<rparr>"
    if h: "pid \<in> watch_pid p
      \<and> process_info p (py_str pid) = Some info \<and> prev_io info = Some (pr, pw)
      \<and> fst (get_process_io pid (snd (time v))) = Inr (rc, wc)
      \<and> clock v (ticks v) \<noteq> pre_time info"
  proof -
    from h obtain v' where rd: "get_process_io pid (snd (time v)) = (Inr (rc, wc), v')"
      by (cases "get_process_io pid (snd (time v))") simp
    from h have a: "pid \<in> watch_pid p" "process_info p (py_str pid) = Some info"
      "prev_io info = Some (pr, pw)" by simp_all
    from h calc_process_cpu_io_warm [OF a rd, of interval] show ?thesis by simp
  qed
  have percent: "real_of_int (a - b) * 100 / real_of_int (t - q) < 0"
    if "a < b \<and> q < t" for a b q t :: int
  proof -
    from that have "a < b" and "q < t" by simp_all
    then show ?thesis by (rule negative_percent)
  qed
  have kb: "real_of_int (a - b) / 1024 / (t - q) < 0"
    if "a < b \<and> q < t" for a b :: int and q t :: real
  proof -
    from that have "a < b" and "q < t" by simp_all
    then show ?thesis by (rule negative_rate) simp
  qed
  have mb: "real_of_int (a - b) / 1000 ^ 2 / (t - q) < 0
            \<and> round2 (real_of_int (a - b) / 1000 ^ 2 / (t - q)) \<le> 0"
    if "a < b \<and> q < t" for a b :: int and q t :: real
  proof -
    from that have "a < b" and "q < t" by simp_all
    then have "real_of_int (a - b) / 1000 ^ 2 / (t - q) < 0"
      by (rule negative_rate) simp
    then show ?thesis by (simp add: round2_not_positive)
  qed
  show ?thesis
    using cpu net proc io percent kb mb by blast
qed

theorem counter_reset_gives_negative_rate_witness:
  "fst (calc_cpu_percent 2 cpu_sampled_120_42 cpu_reset) = Inr (- 60)
   \<and> prev_cpu_work_time (fst (snd (calc_cpu_percent 2 cpu_sampled_120_42 cpu_reset))) = 30
   \<and> fst (calc_net_speed 2 (net_sampled 2097152 4096) net_reset) = Inr (- 1024, - 2)
   \<and> prev_net_receive_byte (fst (snd (calc_net_speed 2 (net_sampled 2097152 4096) net_reset)))
       = 1048576
   \<and> prev_net_send_byte (fst (snd (calc_net_speed 2 (net_sampled 2097152 4096) net_reset)))
       = 2048
   \<and> fst (calc_process_cpu_percent 7 2 (watching_7 pid7_cpu_50) pid7_cpu_reset) = Inr (- 50)
   \<and> fst (calc_process_cpu_io 7 2 (watching_7 (pid7_io_sampled 2000000 4000000)) pid7_io_reset)
       = Inr (- 1, - 2)"
proof (intro conjI)
  have h1: "prev_cpu_work_time cpu_sampled_120_42 \<noteq> 0
      \<and> fst (get_total_cpu_time cpu_reset) = Inr (140, 30)
      \<and> 140 \<noteq> prev_cpu_total_time cpu_sampled_120_42"
    by (simp add: cpu_sampled_120_42_def cpu_reset_def proc_world_def stat_140_30_def
        get_total_cpu_time_def parse_defs)
  have b1: "30 < prev_cpu_work_time cpu_sampled_120_42
      \<and> prev_cpu_total_time cpu_sampled_120_42 < 140"
    by (simp add: cpu_sampled_120_42_def)
  note c1 = counter_reset_gives_negative_rate [where s = cpu_sampled_120_42 and w = cpu_reset
      and ct = 140 and cw = 30 and interval = 2, THEN conjunct1, THEN mp, OF h1]
  note n1 = c1 [THEN conjunct2, THEN conjunct2, THEN mp, OF b1]
  from c1 n1 show "fst (calc_cpu_percent 2 cpu_sampled_120_42 cpu_reset) = Inr (- 60)"
    by (simp add: cpu_sampled_120_42_def)
  from c1 show "prev_cpu_work_time (fst (snd (calc_cpu_percent 2 cpu_sampled_120_42 cpu_reset)))
                  = 30"
    by simp
next
  have h2: "prev_net_receive_byte (net_sampled 2097152 4096) \<noteq> 0
      \<and> fst (get_net_dev_data net_reset) = Inr (1048576, 2048)
      \<and> clock net_reset (ticks net_reset) \<noteq> prev_net_time (net_sampled 2097152 4096)"
    by (simp add: net_sampled_def corelib_init_def net_reset_def later_world_def proc_world_def
        net_dev_table_def get_net_dev_data_def parse_defs eval_nat_numeral)
  have b2: "1048576 < prev_net_receive_byte (net_sampled 2097152 4096)
      \<and> prev_net_time (net_sampled 2097152 4096) < clock net_reset (ticks net_reset)"
    by (simp add: net_sampled_def corelib_init_def net_reset_def later_world_def proc_world_def)
  have b2': "2048 < prev_net_send_byte (net_sampled 2097152 4096)
      \<and> prev_net_time (net_sampled 2097152 4096) < clock net_reset (ticks net_reset)"
    by (simp add: net_sampled_def corelib_init_def net_reset_def later_world_def proc_world_def)
  note c2 = counter_reset_gives_negative_rate [where s = "net_sampled 2097152 4096"
      and v = net_reset and nr = 1048576 and ns = 2048 and interval = 2,
      THEN conjunct2, THEN conjunct1, THEN mp, OF h2]
  note n2 = c2 [THEN conjunct2, THEN conjunct2, THEN conjunct1, THEN mp, OF b2]
  note n2' = c2 [THEN conjunct2, THEN conjunct2, THEN conjunct2, THEN mp, OF b2']
  from c2 n2 n2'
  show "fst (calc_net_speed 2 (net_sampled 2097152 4096) net_reset) = Inr (- 1024, - 2)"
    by (simp add: net_sampled_def corelib_init_def net_reset_def later_world_def proc_world_def)
  from c2 show "prev_net_receive_byte
                  (fst (snd (calc_net_speed 2 (net_sampled 2097152 4096) net_reset))) = 1048576"
    by simp
  from c2 show "prev_net_send_byte
                  (fst (snd (calc_net_speed 2 (net_sampled 2097152 4096) net_reset))) = 2048"
    by simp
next
  have h3: "7 \<in> watch_pid (watching_7 pid7_cpu_50)
      \<and> process_info (watching_7 pid7_cpu_50) (py_str 7) = Some pid7_cpu_50
      \<and> prev_cpu_time pid7_cpu_50 = Some 50
      \<and> fst (get_total_cpu_time pid7_cpu_reset) = Inr (140, 30)
      \<and> fst (get_process_cpu_time 7 (snd (get_total_cpu_time pid7_cpu_reset))) = Inr 40
      \<and> 140 \<noteq> proc_prev_cpu_total_time (watching_7 pid7_cpu_50)"
    by (simp add: watching_7_def pid7_cpu_50_def py_str_7 pid7_cpu_reset_def proc_world_def
        stat_140_30_def pid7_stat_40_def get_total_cpu_time_def get_process_cpu_time_def
        wrap_process_exceptions_def parse_defs)
  have b3: "(40::int) < 50 \<and> proc_prev_cpu_total_time (watching_7 pid7_cpu_50) < 140"
    by (simp add: watching_7_def)
  note c3 = counter_reset_gives_negative_rate [where p = "watching_7 pid7_cpu_50"
      and w = pid7_cpu_reset and pid = 7 and info = pid7_cpu_50 and prev = 50 and ct = 140
      and cw = 30 and cp = 40 and interval = 2,
      THEN conjunct2, THEN conjunct2, THEN conjunct1, THEN mp, OF h3]
  note n3 = c3 [THEN conjunct2, THEN conjunct2, THEN mp, OF b3]
  from c3 n3 show "fst (calc_process_cpu_percent 7 2 (watching_7 pid7_cpu_50) pid7_cpu_reset)
                  = Inr (- 50)"
    by (simp add: watching_7_def)
next
  have h4: "7 \<in> watch_pid (watching_7 (pid7_io_sampled 2000000 4000000))
      \<and> process_info (watching_7 (pid7_io_sampled 2000000 4000000)) (py_str 7)
          = Some (pid7_io_sampled 2000000 4000000)
      \<and> prev_io (pid7_io_sampled 2000000 4000000) = Some (2000000, 4000000)
      \<and> fst (get_process_io 7 (snd (time pid7_io_reset))) = Inr (0, 0)
      \<and> clock pid7_io_reset (ticks pid7_io_reset)
          \<noteq> pre_time (pid7_io_sampled 2000000 4000000)"
    by (simp add: watching_7_def pid7_io_sampled_def py_str_7 pid7_io_reset_def later_world_def
        proc_world_def pid_io_file_def time_def get_process_io_def io_field_def
        wrap_process_exceptions_def parse_defs)
  have b4: "(0::int) < 2000000
      \<and> pre_time (pid7_io_sampled 2000000 4000000) < clock pid7_io_reset (ticks pid7_io_reset)"
    by (simp add: pid7_io_sampled_def pid7_io_reset_def later_world_def proc_world_def)
  have b4': "(0::int) < 4000000
      \<and> pre_time (pid7_io_sampled 2000000 4000000) < clock pid7_io_reset (ticks pid7_io_reset)"
    by (simp add: pid7_io_sampled_def pid7_io_reset_def later_world_def proc_world_def)
  note c4 = counter_reset_gives_negative_rate
      [where p = "watching_7 (pid7_io_sampled 2000000 4000000)"
      and v = pid7_io_reset and pid = 7 and info = "pid7_io_sampled 2000000 4000000"
      and pr = 2000000 and pw = 4000000 and rc = 0 and wc = 0 and interval = 2,
      THEN conjunct2, THEN conjunct2, THEN conjunct2, THEN mp, OF h4]
  note n4 = c4 [THEN conjunct2, THEN conjunct2, THEN conjunct1, THEN mp, OF b4]
  note n4' = c4 [THEN conjunct2, THEN conjunct2, THEN conjunct2, THEN mp, OF b4']
  from c4 n4 n4'
  show "fst (calc_process_cpu_io 7 2 (watching_7 (pid7_io_sampled 2000000 4000000))
                  pid7_io_reset) = Inr (- 1, - 2)"
    by (simp add: pid7_io_sampled_def pid7_io_reset_def later_world_def proc_world_def
        round2_def)
qed

text \<open>The traffic request while the capture thread runs, and on a machine without libnethogs.\<close>

lemma get_process_net_info_running:
  assumes "libnethogs_thread_install s" and "libnethogs_thread s"
  shows "get_process_net_info pid s w =
           (Inr (libnethogs_data s (py_str pid)), s\<lparr>watch_pid := insert pid (watch_pid s)\<rparr>, w)"
  using assms by (simp add: get_process_net_info_def)

text \<open>
  C3 as stated does not hold. The first traffic request on a machine without libnethogs raises
  \<open>SystemExit\<close> with status -1: the process is told to end, and no typed error of the
  engine reaches the caller.
\<close>

theorem engine_missing_counterexample:
  "fst (get_process_net_info 7 all_process_info_dict (proc_world 2 [])) = Inl (SystemExit (- 1))"
  by (simp add: get_process_net_info_def all_process_info_dict_def proc_world_def
      is_libnethogs_install_def print_def)

text \<open>
  C3, as the code has it. On a machine without libnethogs, a traffic request made before the
  library has been seen prints a message and calls \<open>exit(-1)\<close>: \<open>SystemExit\<close> is raised,
  which ends the process unless a caller intercepts it. No value is returned, and the registry
  and the watch set stay as they were.
\<close>

theorem engine_missing_exits:
  assumes "\<not> libnethogs_thread_install s"
    and "\<not> is_libnethogs_install ''/usr/local/lib/libnethogs.so'' w"
  shows "get_process_net_info pid s w =
           (Inl (SystemExit (- 1)), s, print ''Error : libnethogs is not installed!'' w)"
  using assms by (simp add: get_process_net_info_def)

theorem engine_missing_exits_witness:
  "get_process_net_info 7 all_process_info_dict (proc_world 2 []) =
     (Inl (SystemExit (- 1)), all_process_info_dict,
      print ''Error : libnethogs is not installed!'' (proc_world 2 []))
   \<and> stdout (snd (snd (get_process_net_info 7 all_process_info_dict (proc_world 2 []))))
       = [''Error : libnethogs is not installed!'']
   \<and> watch_pid (fst (snd (get_process_net_info 7 all_process_info_dict (proc_world 2 [])))) = {}"
proof -
  have a: "\<not> libnethogs_thread_install all_process_info_dict"
    by (simp add: all_process_info_dict_def)
  have b: "\<not> is_libnethogs_install ''/usr/local/lib/libnethogs.so'' (proc_world 2 [])"
    by (simp add: is_libnethogs_install_def proc_world_def)
  from engine_missing_exits [OF a b, of 7] show ?thesis
    by (simp add: print_def proc_world_def all_process_info_dict_def)
qed

text \<open>
  Whatever a call of \<open>calc_process_cpu_percent\<close> returns or raises, it only adds to the
  registry: the pid is in the watch set afterwards, and the traffic records and the state of
  the capture thread are untouched.
\<close>

lemma calc_process_cpu_percent_keeps:
  assumes "calc_process_cpu_percent pid interval s w = (r, s', w')"
  shows "watch_pid s' = insert pid (watch_pid s)
     \<and> libnethogs_data s' = libnethogs_data s
     \<and> libnethogs_thread s' = libnethogs_thread s
     \<and> libnethogs_thread_install s' = libnethogs_thread_install s
     \<and> (r \<noteq> Inl KeyError \<longrightarrow> process_info s' (py_str pid) \<noteq> None)"
  using assms
  by (auto simp: calc_process_cpu_percent_def add_watched_def Let_def
      split: option.splits prod.splits sum.splits if_splits)

text \<open>
  C4 as stated does not hold. Process 7 is watched and has a traffic record; its
  \<open>/proc/7/stat\<close> is gone. The sampling call raises \<open>ProcessNotFound\<close>, the pid is
  still watched afterwards, its entry is still there, and the next traffic request returns the
  old record.
\<close>

theorem exited_pid_counterexample:
  "fst (calc_process_cpu_percent 7 2 (watching_7 pid7_cpu_50) pid7_exited)
     = Inl (ProcessNotFound 7)
   \<and> 7 \<in> watch_pid (fst (snd (calc_process_cpu_percent 7 2 (watching_7 pid7_cpu_50) pid7_exited)))
   \<and> process_info (fst (snd (calc_process_cpu_percent 7 2 (watching_7 pid7_cpu_50) pid7_exited)))
        ''7'' = Some pid7_cpu_50
   \<and> fst (get_process_net_info 7
            (fst (snd (calc_process_cpu_percent 7 2 (watching_7 pid7_cpu_50) pid7_exited)))
            (snd (snd (calc_process_cpu_percent 7 2 (watching_7 pid7_cpu_50) pid7_exited))))
       = Inr (Some traffic_7)"
  by (simp add: calc_process_cpu_percent_def add_watched_def get_process_net_info_def
      watching_7_def pid7_cpu_50_def py_str_7 pid7_exited_def proc_world_def
      stat_140_30_def get_total_cpu_time_def get_process_cpu_time_def
      wrap_process_exceptions_def parse_defs)

text \<open>A process that has exited has no \<open>/proc/[pid]/stat\<close> any more.\<close>

lemma get_process_cpu_time_exited:
  "files w (''/proc/'' @ py_str pid @ ''/stat'') = [] \<Longrightarrow>
     get_process_cpu_time pid w = (Inl (ProcessNotFound pid), w)"
  by (simp add: get_process_cpu_time_def wrap_process_exceptions_def open_read_def)

text \<open>
  C4, as the code has it. When the counter lookup of a watched pid fails because the process
  has exited, \<open>calc_process_cpu_percent\<close> lets \<open>ProcessNotFound\<close> escape and leaves the
  registry as it was; and whenever the call ends in \<open>ProcessNotFound\<close>, nothing has been
  removed: the pid is in the watch set, its entry and the traffic records are kept, and a later
  traffic request (capture thread running) returns the record stored last.
\<close>

theorem exited_pid_is_kept:
  "(pid \<in> watch_pid s
      \<and> process_info s (py_str pid) = Some info \<and> prev_cpu_time info = Some prev
      \<and> get_total_cpu_time w = (Inr (ct, cw), wa)
      \<and> files wa (''/proc/'' @ py_str pid @ ''/stat'') = []
    \<longrightarrow> calc_process_cpu_percent pid interval s w = (Inl (ProcessNotFound pid), s, wa))
   \<and> (calc_process_cpu_percent pid interval s w = (Inl (ProcessNotFound pid), s', w')
    \<longrightarrow> pid \<in> watch_pid s' \<and> watch_pid s \<subseteq> watch_pid s'
        \<and> process_info s' (py_str pid) \<noteq> None
        \<and> libnethogs_data s' = libnethogs_data s
        \<and> (libnethogs_thread_install s \<and> libnethogs_thread s \<longrightarrow>
             get_process_net_info pid s' v = (Inr (libnethogs_data s (py_str pid)), s', v)))"
proof (rule conjI; rule impI)
  assume h: "pid \<in> watch_pid s
      \<and> process_info s (py_str pid) = Some info \<and> prev_cpu_time info = Some prev
      \<and> get_total_cpu_time w = (Inr (ct, cw), wa)
      \<and> files wa (''/proc/'' @ py_str pid @ ''/stat'') = []"
  then have a: "pid \<in> watch_pid s" "process_info s (py_str pid) = Some info"
    "prev_cpu_time info = Some prev" "get_total_cpu_time w = (Inr (ct, cw), wa)" by simp_all
  from h have "get_process_cpu_time pid wa = (Inl (ProcessNotFound pid), wa)"
    by (simp add: get_process_cpu_time_exited)
  from calc_process_cpu_percent_lookup_fails [OF a this]
  show "calc_process_cpu_percent pid interval s w = (Inl (ProcessNotFound pid), s, wa)" .
next
  assume run: "calc_process_cpu_percent pid interval s w = (Inl (ProcessNotFound pid), s', w')"
  note k = calc_process_cpu_percent_keeps [OF run]
  from k have in_set: "pid \<in> watch_pid s'" and sub: "watch_pid s \<subseteq> watch_pid s'"
    by auto
  from k have entry: "process_info s' (py_str pid) \<noteq> None" by simp
  from k have data: "libnethogs_data s' = libnethogs_data s" by simp
  have "get_process_net_info pid s' v = (Inr (libnethogs_data s (py_str pid)), s', v)"
    if thread: "libnethogs_thread_install s \<and> libnethogs_thread s"
  proof -
    from k thread have "libnethogs_thread_install s'" and "libnethogs_thread s'" by simp_all
    from get_process_net_info_running [OF this, of pid v] in_set data
    show ?thesis by (simp add: insert_absorb)
  qed
  with in_set sub entry data
  show "pid \<in> watch_pid s' \<and> watch_pid s \<subseteq> watch_pid s'
        \<and> process_info s' (py_str pid) \<noteq> None
        \<and> libnethogs_data s' = libnethogs_data s
        \<and> (libnethogs_thread_install s \<and> libnethogs_thread s \<longrightarrow>
             get_process_net_info pid s' v = (Inr (libnethogs_data s (py_str pid)), s', v))"
    by simp
qed

theorem exited_pid_is_kept_witness:
  "fst (calc_process_cpu_percent 7 2 (watching_7 pid7_cpu_50) pid7_exited)
     = Inl (ProcessNotFound 7)
   \<and> fst (snd (calc_process_cpu_percent 7 2 (watching_7 pid7_cpu_50) pid7_exited))
       = watching_7 pid7_cpu_50
   \<and> fst (get_process_net_info 7
            (fst (snd (calc_process_cpu_percent 7 2 (watching_7 pid7_cpu_50) pid7_exited)))
            (snd (snd (calc_process_cpu_percent 7 2 (watching_7 pid7_cpu_50) pid7_exited))))
       = Inr (Some traffic_7)"
proof -
  define wa where "wa = snd (get_total_cpu_time pid7_exited)"
  have h: "7 \<in> watch_pid (watching_7 pid7_cpu_50)
      \<and> process_info (watching_7 pid7_cpu_50) (py_str 7) = Some pid7_cpu_50
      \<and> prev_cpu_time pid7_cpu_50 = Some 50
      \<and> get_total_cpu_time pid7_exited = (Inr (140, 30), wa)
      \<and> files wa (''/proc/'' @ py_str 7 @ ''/stat'') = []"
    unfolding wa_def
    by (simp add: prod_eq_iff watching_7_def pid7_cpu_50_def py_str_7 pid7_exited_def
        proc_world_def stat_140_30_def get_total_cpu_time_def parse_defs)
  note run = exited_pid_is_kept [where pid = 7 and s = "watching_7 pid7_cpu_50"
      and info = pid7_cpu_50 and prev = 50 and w = pid7_exited and ct = 140 and cw = 30
      and wa = wa and interval = 2, THEN conjunct1, THEN mp, OF h]
  have thread: "libnethogs_thread_install (watching_7 pid7_cpu_50)
                  \<and> libnethogs_thread (watching_7 pid7_cpu_50)"
    by (simp add: watching_7_def)
  from exited_pid_is_kept [where pid = 7 and s = "watching_7 pid7_cpu_50" and w = pid7_exited
      and interval = 2 and s' = "watching_7 pid7_cpu_50" and w' = wa and v = wa,
      THEN conjunct2, THEN mp, OF run] thread
  have "get_process_net_info 7 (watching_7 pid7_cpu_50) wa
          = (Inr (libnethogs_data (watching_7 pid7_cpu_50) (py_str 7)),
             watching_7 pid7_cpu_50, wa)"
    by simp
  with run show ?thesis
    by (simp add: watching_7_def py_str_7)
qed

text \<open>
  The callback of the capture thread stores a record only for a watched pid; the record of
  process 7 above is what it stores for this event.
\<close>

lemma network_activity_callback_unwatched:
  "nh_pid data \<notin> watch_pid s \<Longrightarrow> network_activity_callback action data now s = s"
  by (simp add: network_activity_callback_def)

lemma traffic_7_from_callback:
  "network_activity_callback 1 nethogs_event_7 ''12:00:00''
     ((watching_7 info)\<lparr>libnethogs_data := Map.empty\<rparr>) = watching_7 info"
  by (simp add: network_activity_callback_def nethogs_event_7_def watching_7_def traffic_7_def
      Action_MAP_def py_str_7 round2_def)

text \<open>\<open>str\<close> is injective on integers, so distinct pids have distinct keys.\<close>

lemma digit_val_nth: "k < 10 \<Longrightarrow> digit_val (''0123456789'' ! k) = int k"
proof -
  assume "k < 10"
  then have "k \<in> {0, 1, 2, 3, 4, 5, 6, 7, 8, 9}" by auto
  then show ?thesis by (auto simp: digit_val_def)
qed

lemma digit_nth_not_minus: "k < 10 \<Longrightarrow> ''0123456789'' ! k \<noteq> CHR ''-''"
proof -
  assume "k < 10"
  then have "k \<in> {0, 1, 2, 3, 4, 5, 6, 7, 8, 9}" by auto
  then show ?thesis by auto
qed

lemma digits_val_snoc: "digits_val (ds @ [c]) = digits_val ds * 10 + digit_val c"
  by (simp add: digits_val_def)

lemma digits_val_str_nat: "digits_val (str_nat n) = int n"
proof (induction n rule: str_nat.induct)
  case (1 n)
  show ?case
  proof (cases "n < 10")
    case True
    then show ?thesis
      by (subst str_nat.simps) (simp add: digits_val_def digit_val_nth)
  next
    case False
    with 1 have "digits_val (str_nat (n div 10)) = int (n div 10)" by simp
    with False show ?thesis
      by (subst str_nat.simps) (simp add: digits_val_snoc digit_val_nth zdiv_int zmod_int)
  qed
qed

lemma str_nat_no_minus: "CHR ''-'' \<notin> set (str_nat n)"
proof (induction n rule: str_nat.induct)
  case (1 n)
  show ?case
  proof (cases "n < 10")
    case True
    then show ?thesis
      by (subst str_nat.simps) (simp add: digit_nth_not_minus [symmetric])
  next
    case False
    with 1 have "CHR ''-'' \<notin> set (str_nat (n div 10))" by simp
    with False show ?thesis
      using digit_nth_not_minus [of "n mod 10"]
      by (subst str_nat.simps) auto
  qed
qed

lemma py_str_inj: "py_str a = py_str b \<Longrightarrow> a = b"
proof -
  assume eq: "py_str a = py_str b"
  have neg: False if "x < 0" "0 \<le> y" "py_str x = py_str y" for x y
  proof -
    from that have "CHR ''-'' # str_nat (nat (- x)) = str_nat (nat y)"
      by (simp add: py_str_def)
    then have "CHR ''-'' \<in> set (str_nat (nat y))"
      by (metis list.set_intros(1))
    with str_nat_no_minus show False by blast
  qed
  consider "a < 0" "b < 0" | "a < 0" "0 \<le> b" | "0 \<le> a" "b < 0" | "0 \<le> a" "0 \<le> b"
    by linarith
  then show ?thesis
  proof cases
    case 1
    with eq have "str_nat (nat (- a)) = str_nat (nat (- b))" by (simp add: py_str_def)
    then have "digits_val (str_nat (nat (- a))) = digits_val (str_nat (nat (- b)))" by simp
    with 1 show ?thesis by (simp add: digits_val_str_nat)
  next
    case 2
    with neg eq show ?thesis by blast
  next
    case 3
    with neg [of b a] eq show ?thesis by simp
  next
    case 4
    with eq have "str_nat (nat a) = str_nat (nat b)" by (simp add: py_str_def)
    then have "digits_val (str_nat (nat a)) = digits_val (str_nat (nat b))" by simp
    with 4 show ?thesis by (simp add: digits_val_str_nat)
  qed
qed

text \<open>
  A call for the pid \<open>q\<close> leaves the entry of every other pid alone; what it shares with
  the other pids is the one recorded total CPU time, which every successful call overwrites.
\<close>

lemma calc_process_cpu_percent_frame:
  assumes "calc_process_cpu_percent q interval s w = (r, s', w')" and "p \<noteq> q"
  shows "process_info s' (py_str p) = process_info s (py_str p)"
proof -
  from assms(2) have "py_str p \<noteq> py_str q" using py_str_inj by blast
  with assms(1) show ?thesis
    by (auto simp: calc_process_cpu_percent_def add_watched_def Let_def
        split: option.splits prod.splits sum.splits if_splits)
qed

lemma py_str_1_2: "py_str 1 = ''1''" "py_str 2 = ''2''"
  by (simp_all add: py_str_def str_nat.simps)

text \<open>
  C5. The registry keeps one \<open>prev_cpu_total_time\<close> for all processes. Three calls in a row,
  for process 1, for process 2 and for process 1 again: the call for process 2 leaves the entry
  of process 1 alone but moves the shared total from 1200 to 1500, so the third call divides
  the 200 ticks process 1 has used since total 1200 by the 100 ticks elapsed since total 1500,
  and reports 200 percent where process 1 used 200 of 400 ticks.
\<close>

theorem shared_total_baseline_run:
  "(case calc_process_cpu_percent 1 2 all_process_info_dict two_pids of (r1, s1, w1) \<Rightarrow>
    case calc_process_cpu_percent 2 2 s1 w1 of (r2, s2, w2) \<Rightarrow>
    case calc_process_cpu_percent 1 2 s2 w2 of (r3, s3, w3) \<Rightarrow>
      r1 = Inr 25 \<and> proc_prev_cpu_total_time s1 = 1200
      \<and> r2 = Inr 5 \<and> process_info s2 ''1'' = process_info s1 ''1''
      \<and> proc_prev_cpu_total_time s2 = 1500
      \<and> r3 = Inr 200)"
  by (simp add: calc_process_cpu_percent_def add_watched_def all_process_info_dict_def
      process_info_dict_def py_str_1_2 two_pids_def proc_world_def sleep_def
      stat_line_def pid_stat_line_def get_total_cpu_time_def get_process_cpu_time_def
      wrap_process_exceptions_def parse_defs)

text \<open>A line in which \<open>lo\<close> occurs is skipped, whatever device it describes.\<close>

lemma net_dev_loop_skips:
  "py_count ''lo'' line \<noteq> 0 \<Longrightarrow> net_dev_loop (line # rest) acc = net_dev_loop rest acc"
  by (cases acc) simp

text \<open>
  C6. \<open>get_net_dev_data\<close> skips every line in which the two bytes \<open>lo\<close> occur anywhere, not
  only the line of the loopback device: on a host with the wireless device \<open>wlo1\<close> the
  traffic of that device is left out of both sums.
\<close>

theorem wlo1_left_out:
  "fst (get_net_dev_data wireless_host) = Inr (1000, 2000)
   \<and> sum_excluding_loopback wireless_host_table (0, 0) = Inr (501000, 72000)"
  by (simp add: get_net_dev_data_def wireless_host_def wireless_host_table_def net_dev_table_def
      proc_world_def parse_defs eval_nat_numeral)

text \<open>Reading the counters of a process leaves the clock alone as well.\<close>

lemma get_process_io_world:
  "get_process_io pid w = (r, w') \<Longrightarrow>
     slept w' = slept w \<and> ticks w' = ticks w \<and> clock w' = clock w \<and> stdout w' = stdout w"
  by (auto simp: get_process_io_def wrap_process_exceptions_def open_read_def Let_def
      split: list.splits sum.splits prod.splits file_read.splits error.splits errno.splits)

text \<open>
  C7. The network rates are the byte deltas divided by 1024 and by the elapsed seconds; the
  disk rates are the byte deltas divided by 1000 squared and by the elapsed seconds, rounded to
  two decimals. This holds for a call against a stored sample and for a first call, which takes
  its own baseline. A delta of 1048576 received bytes over one second is 1024, a delta of
  2000000 read bytes over two seconds is 1.
\<close>

theorem throughput_unit_divisors:
  "(prev_net_receive_byte s \<noteq> 0
      \<and> fst (get_net_dev_data w) = Inr (nr, ns)
      \<and> clock w (ticks w) \<noteq> prev_net_time s
    \<longrightarrow> fst (calc_net_speed interval s w)
          = Inr (real_of_int (nr - prev_net_receive_byte s) / 1024
                   / (clock w (ticks w) - prev_net_time s),
                 real_of_int (ns - prev_net_send_byte s) / 1024
                   / (clock w (ticks w) - prev_net_time s)))
   \<and> (prev_net_receive_byte s = 0
      \<and> get_net_dev_data w = (Inr (br, bs), wa)
      \<and> get_net_dev_data (sleep interval (snd (time wa))) = (Inr (nr, ns), wb)
      \<and> clock w (Suc (ticks w)) \<noteq> clock w (ticks w)
    \<longrightarrow> fst (calc_net_speed interval s w)
          = Inr (real_of_int (nr - br) / 1024 / (clock w (Suc (ticks w)) - clock w (ticks w)),
                 real_of_int (ns - bs) / 1024 / (clock w (Suc (ticks w)) - clock w (ticks w))))
   \<and> (pid \<in> watch_pid p
      \<and> process_info p (py_str pid) = Some info \<and> prev_io info = Some (pr, pw)
      \<and> fst (get_process_io pid (snd (time w))) = Inr (rc, wc)
      \<and> clock w (ticks w) \<noteq> pre_time info
    \<longrightarrow> fst (calc_process_cpu_io pid interval p w)
          = Inr (round2 (real_of_int (rc - pr) / 1000 ^ 2 / (clock w (ticks w) - pre_time info)),
                 round2 (real_of_int (wc - pw) / 1000 ^ 2 / (clock w (ticks w) - pre_time info))))
   \<and> (process_info (add_watched pid p) (py_str pid) = Some info \<and> prev_io info = None
      \<and> get_process_io pid w = (Inr (pr, pw), wa)
      \<and> get_process_io pid (snd (time (sleep interval (snd (time wa))))) = (Inr (rc, wc), wb)
      \<and> clock w (Suc (ticks w)) \<noteq> clock w (ticks w)
    \<longrightarrow> fst (calc_process_cpu_io pid interval p w)
          = Inr (round2 (real_of_int (rc - pr) / 1000 ^ 2
                          / (clock w (Suc (ticks w)) - clock w (ticks w))),
                 round2 (real_of_int (wc - pw) / 1000 ^ 2
                          / (clock w (Suc (ticks w)) - clock w (ticks w)))))"
proof (intro conjI impI)
  assume h: "prev_net_receive_byte s \<noteq> 0
      \<and> fst (get_net_dev_data w) = Inr (nr, ns)
      \<and> clock w (ticks w) \<noteq> prev_net_time s"
  then obtain w' where rd: "get_net_dev_data w = (Inr (nr, ns), w')"
    by (cases "get_net_dev_data w") simp
  from get_net_dev_data_world [OF rd] have same: "clock w' (ticks w') = clock w (ticks w)"
    by simp
  from h have warm: "prev_net_receive_byte s \<noteq> 0" by simp
  from h same calc_net_speed_warm [OF warm rd, of interval]
  show "fst (calc_net_speed interval s w)
          = Inr (real_of_int (nr - prev_net_receive_byte s) / 1024
                   / (clock w (ticks w) - prev_net_time s),
                 real_of_int (ns - prev_net_send_byte s) / 1024
                   / (clock w (ticks w) - prev_net_time s))"
    by simp
next
  assume h: "prev_net_receive_byte s = 0
      \<and> get_net_dev_data w = (Inr (br, bs), wa)
      \<and> get_net_dev_data (sleep interval (snd (time wa))) = (Inr (nr, ns), wb)
      \<and> clock w (Suc (ticks w)) \<noteq> clock w (ticks w)"
  then have a: "prev_net_receive_byte s = 0" "get_net_dev_data w = (Inr (br, bs), wa)"
    "get_net_dev_data (sleep interval (snd (time wa))) = (Inr (nr, ns), wb)" by simp_all
  from get_net_dev_data_world [OF a(2)]
  have first: "clock wa = clock w" "ticks wa = ticks w" by simp_all
  from get_net_dev_data_world [OF a(3)] first
  have second: "clock wb = clock w" "ticks wb = Suc (ticks w)"
    by (simp_all add: sleep_def time_def)
  from h calc_net_speed_cold [OF a, of] first second
  show "fst (calc_net_speed interval s w)
          = Inr (real_of_int (nr - br) / 1024 / (clock w (Suc (ticks w)) - clock w (ticks w)),
                 real_of_int (ns - bs) / 1024 / (clock w (Suc (ticks w)) - clock w (ticks w)))"
    by simp
next
  assume h: "pid \<in> watch_pid p
      \<and> process_info p (py_str pid) = Some info \<and> prev_io info = Some (pr, pw)
      \<and> fst (get_process_io pid (snd (time w))) = Inr (rc, wc)
      \<and> clock w (ticks w) \<noteq> pre_time info"
  then obtain w' where rd: "get_process_io pid (snd (time w)) = (Inr (rc, wc), w')"
    by (cases "get_process_io pid (snd (time w))") simp
  from h have a: "pid \<in> watch_pid p" "process_info p (py_str pid) = Some info"
    "prev_io info = Some (pr, pw)" by simp_all
  from h calc_process_cpu_io_warm [OF a rd, of interval]
  show "fst (calc_process_cpu_io pid interval p w)
          = Inr (round2 (real_of_int (rc - pr) / 1000 ^ 2 / (clock w (ticks w) - pre_time info)),
                 round2 (real_of_int (wc - pw) / 1000 ^ 2 / (clock w (ticks w) - pre_time info)))"
    by simp
next
  assume h: "process_info (add_watched pid p) (py_str pid) = Some info \<and> prev_io info = None
      \<and> get_process_io pid w = (Inr (pr, pw), wa)
      \<and> get_process_io pid (snd (time (sleep interval (snd (time wa))))) = (Inr (rc, wc), wb)
      \<and> clock w (Suc (ticks w)) \<noteq> clock w (ticks w)"
  then have a: "process_info (add_watched pid p) (py_str pid) = Some info"
    "prev_io info = None" "get_process_io pid w = (Inr (pr, pw), wa)"
    "get_process_io pid (snd (time (sleep interval (snd (time wa))))) = (Inr (rc, wc), wb)"
    by simp_all
  from get_process_io_world [OF a(3)]
  have first: "clock wa = clock w" "ticks wa = ticks w" by simp_all
  from h calc_process_cpu_io_cold [OF a] first
  show "fst (calc_process_cpu_io pid interval p w)
          = Inr (round2 (real_of_int (rc - pr) / 1000 ^ 2
                          / (clock w (Suc (ticks w)) - clock w (ticks w))),
                 round2 (real_of_int (wc - pw) / 1000 ^ 2
                          / (clock w (Suc (ticks w)) - clock w (ticks w))))"
    by simp
qed

theorem throughput_unit_divisors_witness:
  "fst (calc_net_speed 2 (net_sampled 1048576 2048) scenario_C_second) = Inr (1024, 2)
   \<and> fst (calc_net_speed 2 corelib_init scenario_C) = Inr (1024, 2)
   \<and> fst (calc_process_cpu_io 7 2 (watching_7 (pid7_io_sampled 0 0)) scenario_D_second)
       = Inr (1, 0)
   \<and> fst (calc_process_cpu_io 7 2 all_process_info_dict scenario_D) = Inr (1, 0)"
proof (intro conjI)
  have h1: "prev_net_receive_byte (net_sampled 1048576 2048) \<noteq> 0
      \<and> fst (get_net_dev_data scenario_C_second) = Inr (2097152, 4096)
      \<and> clock scenario_C_second (ticks scenario_C_second)
          \<noteq> prev_net_time (net_sampled 1048576 2048)"
    by (simp add: net_sampled_def corelib_init_def scenario_C_second_def later_world_def
        proc_world_def net_dev_table_def get_net_dev_data_def parse_defs eval_nat_numeral)
  from throughput_unit_divisors [where s = "net_sampled 1048576 2048" and w = scenario_C_second
      and nr = 2097152 and ns = 4096 and interval = 2, THEN conjunct1, THEN mp, OF h1]
  show "fst (calc_net_speed 2 (net_sampled 1048576 2048) scenario_C_second) = Inr (1024, 2)"
    by (simp add: net_sampled_def corelib_init_def scenario_C_second_def later_world_def
        proc_world_def)
next
  define wa where "wa = snd (get_net_dev_data scenario_C)"
  define wb where "wb = snd (get_net_dev_data (sleep 2 (snd (time wa))))"
  have h2: "prev_net_receive_byte corelib_init = 0
      \<and> get_net_dev_data scenario_C = (Inr (1048576, 2048), wa)
      \<and> get_net_dev_data (sleep 2 (snd (time wa))) = (Inr (2097152, 4096), wb)
      \<and> clock scenario_C (Suc (ticks scenario_C)) \<noteq> clock scenario_C (ticks scenario_C)"
    unfolding wa_def wb_def
    by (simp add: prod_eq_iff corelib_init_def scenario_C_def proc_world_def sleep_def time_def
        net_dev_table_def get_net_dev_data_def parse_defs eval_nat_numeral)
  from throughput_unit_divisors [where s = corelib_init and w = scenario_C
      and br = 1048576 and bs = 2048 and wa = wa and nr = 2097152 and ns = 4096 and wb = wb
      and interval = 2, THEN conjunct2, THEN conjunct1, THEN mp, OF h2]
  show "fst (calc_net_speed 2 corelib_init scenario_C) = Inr (1024, 2)"
    by (simp add: scenario_C_def proc_world_def)
next
  have h3: "7 \<in> watch_pid (watching_7 (pid7_io_sampled 0 0))
      \<and> process_info (watching_7 (pid7_io_sampled 0 0)) (py_str 7) = Some (pid7_io_sampled 0 0)
      \<and> prev_io (pid7_io_sampled 0 0) = Some (0, 0)
      \<and> fst (get_process_io 7 (snd (time scenario_D_second))) = Inr (2000000, 0)
      \<and> clock scenario_D_second (ticks scenario_D_second) \<noteq> pre_time (pid7_io_sampled 0 0)"
    by (simp add: watching_7_def pid7_io_sampled_def py_str_7 scenario_D_second_def
        later_world_def proc_world_def pid_io_file_def time_def get_process_io_def io_field_def
        wrap_process_exceptions_def parse_defs)
  from throughput_unit_divisors [where p = "watching_7 (pid7_io_sampled 0 0)"
      and w = scenario_D_second and pid = 7 and info = "pid7_io_sampled 0 0"
      and pr = 0 and pw = 0 and rc = 2000000 and wc = 0 and interval = 2,
      THEN conjunct2, THEN conjunct2, THEN conjunct1, THEN mp, OF h3]
  show "fst (calc_process_cpu_io 7 2 (watching_7 (pid7_io_sampled 0 0)) scenario_D_second)
          = Inr (1, 0)"
    by (simp add: pid7_io_sampled_def scenario_D_second_def later_world_def proc_world_def
        round2_def)
next
  define wa where "wa = snd (get_process_io 7 scenario_D)"
  define wb where "wb = snd (get_process_io 7 (snd (time (sleep 2 (snd (time wa))))))"
  have h4: "process_info (add_watched 7 all_process_info_dict) (py_str 7) = Some process_info_dict
      \<and> prev_io process_info_dict = None
      \<and> get_process_io 7 scenario_D = (Inr (0, 0), wa)
      \<and> get_process_io 7 (snd (time (sleep 2 (snd (time wa))))) = (Inr (2000000, 0), wb)
      \<and> clock scenario_D (Suc (ticks scenario_D)) \<noteq> clock scenario_D (ticks scenario_D)"
    unfolding wa_def wb_def
    by (simp add: prod_eq_iff add_watched_def all_process_info_dict_def process_info_dict_def
        py_str_7 scenario_D_def proc_world_def sleep_def time_def pid_io_file_def
        get_process_io_def io_field_def wrap_process_exceptions_def parse_defs)
  from throughput_unit_divisors [where p = all_process_info_dict and w = scenario_D
      and pid = 7 and info = process_info_dict and pr = 0 and pw = 0 and wa = wa
      and rc = 2000000 and wc = 0 and wb = wb and interval = 2,
      THEN conjunct2, THEN conjunct2, THEN conjunct2, THEN mp, OF h4]
  show "fst (calc_process_cpu_io 7 2 all_process_info_dict scenario_D) = Inr (1, 0)"
    by (simp add: scenario_D_def proc_world_def round2_def)
qed

text \<open>
  C10. The system-scope functions have no flag that says whether a previous sample exists;
  they test the stored work time, respectively the stored received bytes, against 0. Whenever
  that value is 0 the call takes a new baseline, sleeps for the interval and only then samples;
  what was stored before plays no part in the result. A stored value that is 0 because 0 was
  sampled makes the next call block again.
\<close>

theorem warm_up_repeats_on_stored_zero:
  "(prev_cpu_work_time s = 0 \<and> get_total_cpu_time w = (Inr (bt, bw), wa)
    \<longrightarrow> slept (snd (snd (calc_cpu_percent interval s w))) = slept w @ [interval]
        \<and> (get_total_cpu_time (sleep interval wa) = (Inr (ct, cw), wb)
           \<longrightarrow> calc_cpu_percent interval s w =
                 (if ct = bt
                  then (Inl ZeroDivisionError,
                        s\<lparr>prev_cpu_total_time := bt, prev_cpu_work_time := bw\<rparr>, wb)
                  else (Inr (real_of_int (cw - bw) * 100 / real_of_int (ct - bt)),
                        s\<lparr>prev_cpu_total_time := ct, prev_cpu_work_time := cw\<rparr>, wb))))
   \<and> (prev_net_receive_byte s = 0 \<and> get_net_dev_data w = (Inr (br, bs), wa)
    \<longrightarrow> slept (snd (snd (calc_net_speed interval s w))) = slept w @ [interval]
        \<and> (get_net_dev_data (sleep interval (snd (time wa))) = (Inr (nr, ns), wb)
           \<longrightarrow> calc_net_speed interval s w =
                 (if clock wb (ticks wb) = clock wa (ticks wa)
                  then (Inl ZeroDivisionError,
                        s\<lparr>prev_net_receive_byte := br, prev_net_send_byte := bs,
                          prev_net_time := clock wa (ticks wa)\<rparr>, snd (time wb))
                  else (Inr (real_of_int (nr - br) / 1024
                               / (clock wb (ticks wb) - clock wa (ticks wa)),
                             real_of_int (ns - bs) / 1024
                               / (clock wb (ticks wb) - clock wa (ticks wa))),
                        s\<lparr>prev_net_receive_byte := nr, prev_net_send_byte := ns,
                          prev_net_time := clock wb (ticks wb)\<rparr>,
                        snd (time wb)))))"
proof (intro conjI impI)
  assume h: "prev_cpu_work_time s = 0 \<and> get_total_cpu_time w = (Inr (bt, bw), wa)"
  obtain r2 w2 where second: "get_total_cpu_time (sleep interval wa) = (r2, w2)"
    by force
  from h get_total_cpu_time_world [of w "Inr (bt, bw)" wa] get_total_cpu_time_world [OF second]
  have "slept w2 = slept w @ [interval]" by (simp add: sleep_def)
  with h second show "slept (snd (snd (calc_cpu_percent interval s w))) = slept w @ [interval]"
    by (cases r2) (auto simp: calc_cpu_percent_def)
next
  assume h: "prev_cpu_work_time s = 0 \<and> get_total_cpu_time w = (Inr (bt, bw), wa)"
    and second: "get_total_cpu_time (sleep interval wa) = (Inr (ct, cw), wb)"
  from h have a: "prev_cpu_work_time s = 0" "get_total_cpu_time w = (Inr (bt, bw), wa)"
    by simp_all
  from calc_cpu_percent_cold [OF a second]
  show "calc_cpu_percent interval s w =
          (if ct = bt
           then (Inl ZeroDivisionError,
                 s\<lparr>prev_cpu_total_time := bt, prev_cpu_work_time := bw\<rparr>, wb)
           else (Inr (real_of_int (cw - bw) * 100 / real_of_int (ct - bt)),
                 s\<lparr>prev_cpu_total_time := ct, prev_cpu_work_time := cw\<rparr>, wb))" .
next
  assume h: "prev_net_receive_byte s = 0 \<and> get_net_dev_data w = (Inr (br, bs), wa)"
  obtain r2 w2 where second: "get_net_dev_data (sleep interval (snd (time wa))) = (r2, w2)"
    by force
  from h get_net_dev_data_world [of w "Inr (br, bs)" wa] get_net_dev_data_world [OF second]
  have "slept w2 = slept w @ [interval]" by (simp add: sleep_def time_def)
  with h second show "slept (snd (snd (calc_net_speed interval s w))) = slept w @ [interval]"
    by (cases r2) (auto simp: calc_net_speed_def time_def)
next
  assume h: "prev_net_receive_byte s = 0 \<and> get_net_dev_data w = (Inr (br, bs), wa)"
    and second: "get_net_dev_data (sleep interval (snd (time wa))) = (Inr (nr, ns), wb)"
  from h have a: "prev_net_receive_byte s = 0" "get_net_dev_data w = (Inr (br, bs), wa)"
    by simp_all
  from calc_net_speed_cold [OF a second]
  show "calc_net_speed interval s w =
          (if clock wb (ticks wb) = clock wa (ticks wa)
           then (Inl ZeroDivisionError,
                 s\<lparr>prev_net_receive_byte := br, prev_net_send_byte := bs,
                   prev_net_time := clock wa (ticks wa)\<rparr>, snd (time wb))
           else (Inr (real_of_int (nr - br) / 1024 / (clock wb (ticks wb) - clock wa (ticks wa)),
                      real_of_int (ns - bs) / 1024 / (clock wb (ticks wb) - clock wa (ticks wa))),
                 s\<lparr>prev_net_receive_byte := nr, prev_net_send_byte := ns,
                   prev_net_time := clock wb (ticks wb)\<rparr>,
                 snd (time wb)))" .
qed

text \<open>
  Two calls in a row on the idle machine and on the loopback-only host: the first call stores a
  sampled 0, and the second call sleeps again.
\<close>

lemma idle_cpu_first_call:
  "fst (calc_cpu_percent 2 corelib_init idle_cpu) = Inr 0
   \<and> prev_cpu_work_time (fst (snd (calc_cpu_percent 2 corelib_init idle_cpu))) = 0
   \<and> prev_cpu_total_time (fst (snd (calc_cpu_percent 2 corelib_init idle_cpu))) = 200
   \<and> slept (snd (snd (calc_cpu_percent 2 corelib_init idle_cpu))) = [2]
   \<and> files (snd (snd (calc_cpu_percent 2 corelib_init idle_cpu))) ''/proc/stat''
       = [Lines [''cpu  0 0 0 300 0 0 0 0 0 0''], Lines [''cpu  0 0 0 400 0 0 0 0 0 0'']]"
  by (simp add: idle_cpu_def proc_world_def corelib_init_def calc_cpu_percent_def sleep_def
      get_total_cpu_time_def parse_defs)

lemma loopback_host_first_call:
  "fst (calc_net_speed 2 corelib_init loopback_host) = Inr (0, 0)
   \<and> prev_net_receive_byte (fst (snd (calc_net_speed 2 corelib_init loopback_host))) = 0
   \<and> slept (snd (snd (calc_net_speed 2 corelib_init loopback_host))) = [2]
   \<and> ticks (snd (snd (calc_net_speed 2 corelib_init loopback_host))) = 2
   \<and> clock (snd (snd (calc_net_speed 2 corelib_init loopback_host))) = (\<lambda>n. 2 * real n)
   \<and> files (snd (snd (calc_net_speed 2 corelib_init loopback_host))) ''/proc/net/dev''
       = [Lines (take 3 (net_dev_table ''0'' ''0'')), Lines (take 3 (net_dev_table ''0'' ''0''))]"
  by (simp add: loopback_host_def proc_world_def corelib_init_def calc_net_speed_def sleep_def
      time_def net_dev_table_def get_net_dev_data_def open_read_def)

theorem warm_up_repeats_on_stored_zero_witness:
  "slept (snd (snd (calc_cpu_percent 2
            (fst (snd (calc_cpu_percent 2 corelib_init idle_cpu)))
            (snd (snd (calc_cpu_percent 2 corelib_init idle_cpu)))))) = [2, 2]
   \<and> fst (calc_cpu_percent 2
            (fst (snd (calc_cpu_percent 2 corelib_init idle_cpu)))
            (snd (snd (calc_cpu_percent 2 corelib_init idle_cpu)))) = Inr 0
   \<and> slept (snd (snd (calc_net_speed 2
            (fst (snd (calc_net_speed 2 corelib_init loopback_host)))
            (snd (snd (calc_net_speed 2 corelib_init loopback_host)))))) = [2, 2]
   \<and> fst (calc_net_speed 2
            (fst (snd (calc_net_speed 2 corelib_init loopback_host)))
            (snd (snd (calc_net_speed 2 corelib_init loopback_host)))) = Inr (0, 0)"
proof (intro conjI)
  define s1 where "s1 = fst (snd (calc_cpu_percent 2 corelib_init idle_cpu))"
  define w1 where "w1 = snd (snd (calc_cpu_percent 2 corelib_init idle_cpu))"
  define wa where "wa = snd (get_total_cpu_time w1)"
  define wb where "wb = snd (get_total_cpu_time (sleep 2 wa))"
  from idle_cpu_first_call have zero: "prev_cpu_work_time s1 = 0" and sl: "slept w1 = [2]"
    and fs: "files w1 ''/proc/stat''
       = [Lines [''cpu  0 0 0 300 0 0 0 0 0 0''], Lines [''cpu  0 0 0 400 0 0 0 0 0 0'']]"
    by (simp_all add: s1_def w1_def)
  from fs have ra: "get_total_cpu_time w1 = (Inr (300, 0), wa)"
    unfolding wa_def by (simp add: prod_eq_iff get_total_cpu_time_def parse_defs)
  from fs have rb: "get_total_cpu_time (sleep 2 wa) = (Inr (400, 0), wb)"
    unfolding wb_def wa_def
    by (simp add: prod_eq_iff sleep_def get_total_cpu_time_def parse_defs)
  from zero ra have h: "prev_cpu_work_time s1 = 0
      \<and> get_total_cpu_time w1 = (Inr (300, 0), wa)" by simp
  note again = warm_up_repeats_on_stored_zero [where s = s1 and w = w1 and bt = 300
      and bw = 0 and wa = wa and ct = 400 and cw = 0 and wb = wb and interval = 2,
      THEN conjunct1, THEN mp, OF h]
  from again [THEN conjunct1] sl
  show "slept (snd (snd (calc_cpu_percent 2
            (fst (snd (calc_cpu_percent 2 corelib_init idle_cpu)))
            (snd (snd (calc_cpu_percent 2 corelib_init idle_cpu)))))) = [2, 2]"
    unfolding s1_def [symmetric] w1_def [symmetric] by simp
  from again [THEN conjunct2, THEN mp, OF rb]
  show "fst (calc_cpu_percent 2
            (fst (snd (calc_cpu_percent 2 corelib_init idle_cpu)))
            (snd (snd (calc_cpu_percent 2 corelib_init idle_cpu)))) = Inr 0"
    unfolding s1_def [symmetric] w1_def [symmetric] by simp
next
  define s1 where "s1 = fst (snd (calc_net_speed 2 corelib_init loopback_host))"
  define w1 where "w1 = snd (snd (calc_net_speed 2 corelib_init loopback_host))"
  define wa where "wa = snd (get_net_dev_data w1)"
  define wb where "wb = snd (get_net_dev_data (sleep 2 (snd (time wa))))"
  from loopback_host_first_call have zero: "prev_net_receive_byte s1 = 0"
    and sl: "slept w1 = [2]"
    and tk: "ticks w1 = 2" and ck: "clock w1 = (\<lambda>n. 2 * real n)"
    and fs: "files w1 ''/proc/net/dev''
       = [Lines (take 3 (net_dev_table ''0'' ''0'')), Lines (take 3 (net_dev_table ''0'' ''0''))]"
    by (simp_all add: s1_def w1_def)
  from fs have ra: "get_net_dev_data w1 = (Inr (0, 0), wa)"
    unfolding wa_def by (simp add: prod_eq_iff get_net_dev_data_def open_read_def net_dev_table_def)
  from fs have rb: "get_net_dev_data (sleep 2 (snd (time wa))) = (Inr (0, 0), wb)"
    unfolding wb_def wa_def
    by (simp add: prod_eq_iff sleep_def time_def get_net_dev_data_def open_read_def
        net_dev_table_def)
  from get_net_dev_data_world [OF ra] tk ck
  have first: "ticks wa = 2" "clock wa = (\<lambda>n. 2 * real n)" by simp_all
  from get_net_dev_data_world [OF rb] first
  have second: "ticks wb = 3" "clock wb = (\<lambda>n. 2 * real n)"
    by (simp_all add: sleep_def time_def)
  from zero ra have h: "prev_net_receive_byte s1 = 0
      \<and> get_net_dev_data w1 = (Inr (0, 0), wa)" by simp
  note again = warm_up_repeats_on_stored_zero [where s = s1 and w = w1 and br = 0
      and bs = 0 and wa = wa and nr = 0 and ns = 0 and wb = wb and interval = 2,
      THEN conjunct2, THEN mp, OF h]
  from again [THEN conjunct1] sl
  show "slept (snd (snd (calc_net_speed 2
            (fst (snd (calc_net_speed 2 corelib_init loopback_host)))
            (snd (snd (calc_net_speed 2 corelib_init loopback_host)))))) = [2, 2]"
    unfolding s1_def [symmetric] w1_def [symmetric] by simp
  from again [THEN conjunct2, THEN mp, OF rb] first second
  show "fst (calc_net_speed 2
            (fst (snd (calc_net_speed 2 corelib_init loopback_host)))
            (snd (snd (calc_net_speed 2 corelib_init loopback_host)))) = Inr (0, 0)"
    unfolding s1_def [symmetric] w1_def [symmetric] by simp
qed

end
